theory Spec2Isabelle
  imports Main "HOL-Library.Sublist" "HOL-Library.Multiset"
begin

section \<open>AgriHealth backend: the request pipeline\<close>

text \<open>
  A shallow embedding of the Express application in \<^verbatim>\<open>src/server.js\<close> (the
  authentication middleware, the role guard, the article controller and the article
  schema) and of the two contact routes (\<^verbatim>\<open>src/routes/contactRoutes.js\<close> and
  \<^verbatim>\<open>src/unnamed/part_000\<close>).

  Conventions.
  \<^item> A middleware or handler ends by calling \<^verbatim>\<open>next(err)\<close>, by calling
    \<^verbatim>\<open>next()\<close> or by sending a response. Its result is a sum: \<open>Inl err\<close> is
    \<^verbatim>\<open>next(err)\<close> (no later middleware or handler runs, the error middleware does),
    \<open>Inr\<close> is the request passed on, or the response sent.
  \<^item> A call into a library that can throw or reject (\<^verbatim>\<open>jwt.verify\<close>, a mongoose
    query) returns a sum as well, and is an argument of the function that makes the call:
    the code is written against the library, not against one database.
  \<^item> JavaScript strings are lists of \<^typ>\<open>char\<close>; a character is one code unit below
    256, so the c with a cedilla of \<^verbatim>\<open>Francais\<close> is \<open>CHR 0xE7\<close>.
\<close>

subsection \<open>Errors and responses\<close>

text \<open>The three error classes \<^verbatim>\<open>jwt.verify\<close> throws, each with its message.\<close>

datatype jwt_error =
    JsonWebTokenError string
  | TokenExpiredError string
  | NotBeforeError string

text \<open>
  One failed validator of a mongoose \<^verbatim>\<open>ValidationError\<close>: the path and the kind of
  the validator. (Each also carries a message, the schema's where it gives one; no
  property below reads it.) A value that does not cast to the type of its path is
  reported on that path as a failed cast.
\<close>

datatype vkind = Required | MaxLength | Enum | UserDefined | CastFailed

type_synonym verror = "string \<times> vkind"

text \<open>
  What a mongoose operation rejects with: a \<^verbatim>\<open>ValidationError\<close> (its message and
  its failed validators, keyed by path and so in no order), a \<^verbatim>\<open>CastError\<close>, or
  an error of the driver (no connection, a timeout), each with its message.
\<close>

datatype db_error =
    ValidationError string "verror set"
  | CastError string
  | MongoError string

fun db_message :: "db_error \<Rightarrow> string" where
  "db_message (ValidationError m es) = m"
| "db_message (CastError m) = m"
| "db_message (MongoError m) = m"

text \<open>
  What reaches \<^verbatim>\<open>next(err)\<close>: \<^verbatim>\<open>new AppError(message, statusCode)\<close>, an error
  a library threw, or the \<^verbatim>\<open>TypeError\<close> of reading a property of
  \<^verbatim>\<open>undefined\<close>.
\<close>

datatype error =
    AppError string nat
  | JwtError jwt_error
  | DbError db_error
  | TypeError string

text \<open>
  \<^verbatim>\<open>res.status(code).json(body)\<close>. Express sends no body with the statuses 204 and
  304 (\<^verbatim>\<open>res.send\<close> empties the chunk), so the body a client receives is optional.
\<close>

record 'b response =
  statusCode :: nat
  body :: "'b option"

definition send_json :: "nat \<Rightarrow> 'b \<Rightarrow> 'b response" where
  "send_json code b =
     \<lparr>statusCode = code, body = (if code = 204 \<or> code = 304 then None else Some b)\<rparr>"

subsection \<open>Users and requests\<close>

text \<open>
  An identifier is an ObjectId, here a number. A string of a request that does not cast
  to an ObjectId makes the mongoose operation reject with a \<^verbatim>\<open>CastError\<close>: an
  \<open>Inl\<close> result of the operation.
\<close>

type_synonym oid = nat

text \<open>
  Modelled from the spec: \<^verbatim>\<open>models/User.js\<close> is not among the sources. A User has
  an identity (its email), a credential hash and a role.
\<close>

record user =
  user_id :: oid
  email :: string
  password_hash :: string
  role :: string

text \<open>
  The part of \<^verbatim>\<open>req\<close> the two middlewares read and write:
  \<^verbatim>\<open>req.headers.authorization\<close> (absent is \<open>None\<close>) and \<^verbatim>\<open>req.user\<close>.
  The record is extensible, so a middleware leaves every other field as it is.
\<close>

record request =
  authorization :: "string option"
  user :: "user option"

text \<open>The decoded token: \<^verbatim>\<open>decoded.id\<close>.\<close>

record payload =
  payload_id :: oid

subsection \<open>middleware/auth.js\<close>

text \<open>\<^verbatim>\<open>s.split(c)\<close> for a one-character separator: never empty, \<^verbatim>\<open>''.split(' ')\<close> is \<^verbatim>\<open>['']\<close>.\<close>

fun split_on :: "char \<Rightarrow> string \<Rightarrow> string list" where
  "split_on c [] = [[]]"
| "split_on c (x # xs) =
     (if x = c then [] # split_on c xs
      else (case split_on c xs of [] \<Rightarrow> [[x]] | w # ws \<Rightarrow> (x # w) # ws))"

text \<open>\<^verbatim>\<open>xs[i]\<close>: \<^verbatim>\<open>undefined\<close> (here \<open>None\<close>) out of range.\<close>

definition index :: "'a list \<Rightarrow> nat \<Rightarrow> 'a option" where
  "index xs i = (if i < length xs then Some (xs ! i) else None)"

text \<open>
  Step 1 of the middleware: \<^verbatim>\<open>token\<close> stays \<^verbatim>\<open>undefined\<close> unless the header is
  a non-empty string that starts with \<^verbatim>\<open>Bearer\<close>; then it is the second element of
  the header split at every space.
\<close>

definition get_token :: "string option \<Rightarrow> string option" where
  "get_token h =
     (case h of
        None \<Rightarrow> None
      | Some a \<Rightarrow>
          if a \<noteq> [] \<and> prefix ''Bearer'' a then index (split_on CHR '' '' a) 1 else None)"

text \<open>
  The middleware, given \<^verbatim>\<open>jwt.verify(_, process.env.JWT_SECRET)\<close> and
  \<^verbatim>\<open>User.findById\<close>. \<^verbatim>\<open>!token\<close> holds for \<^verbatim>\<open>undefined\<close> and for the empty
  string. Whatever \<open>verify\<close> throws or \<open>findById\<close> rejects with is caught and handed
  to \<^verbatim>\<open>next\<close> as it is.
\<close>

definition auth ::
  "(string \<Rightarrow> jwt_error + payload) \<Rightarrow> (oid \<Rightarrow> db_error + user option) \<Rightarrow>
   'a request_scheme \<Rightarrow> error + 'a request_scheme" where
  "auth verify findById req =
     (case get_token (authorization req) of
        None \<Rightarrow> Inl (AppError ''You are not logged in! Please log in to get access.'' 401)
      | Some token \<Rightarrow>
          if token = [] then
            Inl (AppError ''You are not logged in! Please log in to get access.'' 401)
          else
            (case verify token of
               Inl err \<Rightarrow> Inl (JwtError err)
             | Inr decoded \<Rightarrow>
                 (case findById (payload_id decoded) of
                    Inl err \<Rightarrow> Inl (DbError err)
                  | Inr None \<Rightarrow>
                      Inl (AppError ''The user belonging to this token no longer exists.'' 401)
                  | Inr (Some currentUser) \<Rightarrow> Inr (req\<lparr>user := Some currentUser\<rparr>))))"

text \<open>
  \<^verbatim>\<open>restrictTo(...roles)\<close>. Reading \<^verbatim>\<open>req.user.role\<close> when no middleware has set
  \<^verbatim>\<open>req.user\<close> throws a \<^verbatim>\<open>TypeError\<close>, which Express hands to the error
  middleware.
\<close>

definition restrictTo :: "string list \<Rightarrow> 'a request_scheme \<Rightarrow> error + 'a request_scheme" where
  "restrictTo roles req =
     (case user req of
        None \<Rightarrow> Inl (TypeError ''Cannot read properties of undefined'')
      | Some u \<Rightarrow>
          if role u \<notin> set roles then
            Inl (AppError ''You do not have permission to perform this action'' 403)
          else Inr req)"

subsection \<open>models/Article.js\<close>

text \<open>
  A stored article: its \<^verbatim>\<open>_id\<close> and the paths of \<^verbatim>\<open>articleSchema\<close>. Dates
  are milliseconds since the epoch.
\<close>

record article =
  article_id :: oid
  title :: string
  content :: string
  category :: string
  readTime :: int
  language :: string
  imageUrl :: "string option"
  externalLink :: "string option"
  createdAt :: int
  updatedAt :: "int option"

text \<open>
  A field of a JSON object as mongoose reads it for a path of the schema: the object does
  not have the key, has it with \<^verbatim>\<open>null\<close>, has a value that casts to the type of the
  path (the cast value), or has a value that does not cast.
\<close>

datatype 'a field = Absent | Null | Val 'a | Uncastable

text \<open>
  One object of a create request, by the paths of the schema. The two dates are absent or
  given as dates.
\<close>

record article_payload =
  p_title :: "string field"
  p_content :: "string field"
  p_category :: "string field"
  p_readTime :: "int field"
  p_language :: "string field"
  p_imageUrl :: "string field"
  p_externalLink :: "string field"
  p_createdAt :: "int option"
  p_updatedAt :: "int option"

text \<open>
  \<^verbatim>\<open>req.body\<close> of a create request: \<^verbatim>\<open>express.json()\<close> accepts a JSON object
  and a JSON array, and the handler passes either to \<^verbatim>\<open>Article.create\<close> unchecked.
\<close>

datatype create_body = One article_payload | Many "article_payload list"

definition categories :: "string list" where
  "categories = [''Chemical Safety'', ''Nutrition'', ''First Aid'', ''Mental Health'', ''Hygiene'']"

definition languages :: "string list" where
  "languages = [''English'', ''Fran'' @ [CHR 0xE7] @ ''ais'', ''Kinyarwanda'', ''Swahili'']"

text \<open>The white space \<^verbatim>\<open>String.prototype.trim\<close> removes, among the code units below 256.\<close>

definition js_space :: "char \<Rightarrow> bool" where
  "js_space c = (c \<in> set [CHR 0x09, CHR 0x0A, CHR 0x0B, CHR 0x0C, CHR 0x0D, CHR 0x20, CHR 0xA0])"

definition trim :: "string \<Rightarrow> string" where
  "trim s = rev (dropWhile js_space (rev (dropWhile js_space s)))"

text \<open>
  The validators of each path; mongoose reports the first validator of a path that fails.
  \<^verbatim>\<open>required\<close> fails for a missing value (absent or \<^verbatim>\<open>null\<close>) and, on a
  String path, for the empty string; \<^verbatim>\<open>trim\<close> is applied before the validators
  run. The other validators are not run on an absent value; they are run on
  \<^verbatim>\<open>null\<close>.
\<close>

definition check_title :: "article_payload \<Rightarrow> verror option" where
  "check_title p =
     (case p_title p of
        Absent \<Rightarrow> Some (''title'', Required)
      | Null \<Rightarrow> Some (''title'', Required)
      | Uncastable \<Rightarrow> Some (''title'', CastFailed)
      | Val t \<Rightarrow>
          if trim t = [] then Some (''title'', Required)
          else if 100 < length (trim t) then Some (''title'', MaxLength)
          else None)"

definition check_content :: "article_payload \<Rightarrow> verror option" where
  "check_content p =
     (case p_content p of
        Absent \<Rightarrow> Some (''content'', Required)
      | Null \<Rightarrow> Some (''content'', Required)
      | Uncastable \<Rightarrow> Some (''content'', CastFailed)
      | Val c \<Rightarrow> if trim c = [] then Some (''content'', Required) else None)"

definition check_category :: "article_payload \<Rightarrow> verror option" where
  "check_category p =
     (case p_category p of
        Absent \<Rightarrow> Some (''category'', Required)
      | Null \<Rightarrow> Some (''category'', Required)
      | Uncastable \<Rightarrow> Some (''category'', CastFailed)
      | Val c \<Rightarrow>
          if c = [] then Some (''category'', Required)
          else if c \<notin> set categories then Some (''category'', Enum)
          else None)"

definition check_readTime :: "article_payload \<Rightarrow> verror option" where
  "check_readTime p =
     (case p_readTime p of
        Absent \<Rightarrow> Some (''readTime'', Required)
      | Null \<Rightarrow> Some (''readTime'', Required)
      | Uncastable \<Rightarrow> Some (''readTime'', CastFailed)
      | Val n \<Rightarrow> None)"

definition check_language :: "article_payload \<Rightarrow> verror option" where
  "check_language p =
     (case p_language p of
        Absent \<Rightarrow> Some (''language'', Required)
      | Null \<Rightarrow> Some (''language'', Required)
      | Uncastable \<Rightarrow> Some (''language'', CastFailed)
      | Val l \<Rightarrow>
          if l = [] then Some (''language'', Required)
          else if l \<notin> set languages then Some (''language'', Enum)
          else None)"

text \<open>
  \<^verbatim>\<open>validate: [validator.isURL, ...]\<close> on a path that is not required: an absent
  value passes; \<^verbatim>\<open>validator.isURL(null)\<close> throws, which fails the validator.
\<close>

definition check_url :: "(string \<Rightarrow> bool) \<Rightarrow> string \<Rightarrow> string field \<Rightarrow> verror option" where
  "check_url isURL path v =
     (case v of
        Absent \<Rightarrow> None
      | Null \<Rightarrow> Some (path, UserDefined)
      | Uncastable \<Rightarrow> Some (path, CastFailed)
      | Val u \<Rightarrow> if isURL u then None else Some (path, UserDefined))"

text \<open>
  Validation of a new document against \<^verbatim>\<open>articleSchema\<close>, given
  \<^verbatim>\<open>validator.isURL\<close>: the failed validators, none when the document is valid.
\<close>

definition validate_article :: "(string \<Rightarrow> bool) \<Rightarrow> article_payload \<Rightarrow> verror set" where
  "validate_article isURL p =
     set (List.map_filter (\<lambda>x. x)
       [check_title p, check_content p, check_category p, check_readTime p, check_language p,
        check_url isURL ''imageUrl'' (p_imageUrl p),
        check_url isURL ''externalLink'' (p_externalLink p)])"

text \<open>
  The collection of articles, in insertion order. MongoDB keeps \<^verbatim>\<open>_id\<close> unique in a
  collection; \<open>unique_ids\<close> says so of a list.
\<close>

type_synonym collection = "article list"

definition unique_ids :: "collection \<Rightarrow> bool" where
  "unique_ids docs = distinct (map article_id docs)"

text \<open>The value a String or Number path holds once the document has passed validation.\<close>

definition stored :: "'a \<Rightarrow> 'a field \<Rightarrow> 'a" where
  "stored d v = (case v of Val x \<Rightarrow> x | Absent \<Rightarrow> d | Null \<Rightarrow> d | Uncastable \<Rightarrow> d)"

definition url_stored :: "string field \<Rightarrow> string option" where
  "url_stored v = (case v of Val x \<Rightarrow> Some x | Absent \<Rightarrow> None | Null \<Rightarrow> None | Uncastable \<Rightarrow> None)"

text \<open>
  \<^verbatim>\<open>new Article(obj).save()\<close>, given \<^verbatim>\<open>validator.isURL\<close>, the text mongoose
  gives a \<^verbatim>\<open>ValidationError\<close> for its failed validators, the \<^verbatim>\<open>_id\<close> the
  driver generates and \<^verbatim>\<open>Date.now()\<close>: the document is validated first and
  inserted only when no validator failed. The result is what the promise settles with,
  and the collection afterwards.
\<close>

definition Article_save ::
  "(string \<Rightarrow> bool) \<Rightarrow> (verror set \<Rightarrow> string) \<Rightarrow> oid \<Rightarrow> int \<Rightarrow> collection \<Rightarrow> article_payload \<Rightarrow>
   (db_error + article) \<times> collection" where
  "Article_save isURL describe new_id now docs p =
     (if validate_article isURL p = {} then
        (let doc = \<lparr>article_id = new_id,
                    title = trim (stored [] (p_title p)),
                    content = trim (stored [] (p_content p)),
                    category = stored [] (p_category p),
                    readTime = stored 0 (p_readTime p),
                    language = stored [] (p_language p),
                    imageUrl = url_stored (p_imageUrl p),
                    externalLink = url_stored (p_externalLink p),
                    createdAt = (case p_createdAt p of None \<Rightarrow> now | Some t \<Rightarrow> t),
                    updatedAt = p_updatedAt p\<rparr>
         in (Inr doc, docs @ [doc]))
      else
        (Inl (ValidationError (describe (validate_article isURL p)) (validate_article isURL p)),
         docs))"

text \<open>
  The elements of an array, each saved on its own, the \<open>k\<close>-th under the \<open>k\<close>-th
  identifier the driver generates: an element that fails validation does not stop the
  others from being inserted.
\<close>

fun Article_save_each ::
  "(string \<Rightarrow> bool) \<Rightarrow> (verror set \<Rightarrow> string) \<Rightarrow> (nat \<Rightarrow> oid) \<Rightarrow> int \<Rightarrow> nat \<Rightarrow> collection \<Rightarrow>
   article_payload list \<Rightarrow> (db_error + article) list \<times> collection" where
  "Article_save_each isURL describe new_id now k docs [] = ([], docs)"
| "Article_save_each isURL describe new_id now k docs (p # ps) =
     (case Article_save isURL describe (new_id k) now docs p of
        (r, docs') \<Rightarrow>
          (case Article_save_each isURL describe new_id now (Suc k) docs' ps of
             (rs, docs'') \<Rightarrow> (r # rs, docs'')))"

fun first_error :: "('e + 'a) list \<Rightarrow> 'e option" where
  "first_error [] = None"
| "first_error (Inl e # rs) = Some e"
| "first_error (Inr a # rs) = first_error rs"

fun settled :: "('e + 'a) list \<Rightarrow> 'a list" where
  "settled [] = []"
| "settled (Inl e # rs) = settled rs"
| "settled (Inr a # rs) = a # settled rs"

text \<open>What \<^verbatim>\<open>Article.create\<close> settles with: one document, or the documents of an array.\<close>

datatype created = Doc article | Docs "article list"

text \<open>
  \<^verbatim>\<open>Article.create(body)\<close>: one object is saved as one document; the elements of an
  array are each saved, and the call rejects with the error of the first element that
  failed, if one did.
\<close>

definition Article_create ::
  "(string \<Rightarrow> bool) \<Rightarrow> (verror set \<Rightarrow> string) \<Rightarrow> (nat \<Rightarrow> oid) \<Rightarrow> int \<Rightarrow> collection \<Rightarrow> create_body \<Rightarrow>
   (db_error + created) \<times> collection" where
  "Article_create isURL describe new_id now docs b =
     (case b of
        One p \<Rightarrow>
          (case Article_save isURL describe (new_id 0) now docs p of
             (Inl err, docs') \<Rightarrow> (Inl err, docs')
           | (Inr doc, docs') \<Rightarrow> (Inr (Doc doc), docs'))
      | Many ps \<Rightarrow>
          (case Article_save_each isURL describe new_id now 0 docs ps of
             (rs, docs') \<Rightarrow>
               (case first_error rs of
                  Some err \<Rightarrow> (Inl err, docs')
                | None \<Rightarrow> (Inr (Docs (settled rs)), docs'))))"

text \<open>
  A value of \<^verbatim>\<open>req.query\<close>: a string, or what the query parser delivers instead of
  a string (an array for a repeated parameter, an object for a bracketed one).
\<close>

datatype 'x qval = QStr string | QOther 'x

text \<open>The filter object of \<^verbatim>\<open>getAllArticles\<close>: a key is \<open>None\<close> when it is not set.\<close>

record 'x article_filter =
  f_category :: "'x qval option"
  f_language :: "'x qval option"

text \<open>
  A condition of a filter on a String path: a string selects the documents that hold it,
  an array of strings those that hold one of its elements (mongoose turns it into
  \<^verbatim>\<open>$in\<close>).
\<close>

definition condition_holds :: "string list qval option \<Rightarrow> string \<Rightarrow> bool" where
  "condition_holds cond v =
     (case cond of None \<Rightarrow> True | Some (QStr c) \<Rightarrow> v = c | Some (QOther cs) \<Rightarrow> v \<in> set cs)"

definition matches :: "string list article_filter \<Rightarrow> article \<Rightarrow> bool" where
  "matches flt a = (condition_holds (f_category flt) (category a)
      \<and> condition_holds (f_language flt) (language a))"

text \<open>
  \<^verbatim>\<open>Article.find(filter).sort('-createdAt')\<close>: the documents that match, latest
  first.
\<close>

definition Article_find_sorted ::
  "collection \<Rightarrow> string list article_filter \<Rightarrow> db_error + article list" where
  "Article_find_sorted docs flt =
     Inr (sort_key (\<lambda>a. - createdAt a) (filter (matches flt) docs))"

text \<open>
  \<^verbatim>\<open>Article.findById(id)\<close> for an identifier that is an ObjectId: the document, or
  \<^verbatim>\<open>null\<close> (here \<open>None\<close>).
\<close>

definition Article_findById :: "collection \<Rightarrow> oid \<Rightarrow> db_error + article option" where
  "Article_findById docs i = Inr (find (\<lambda>a. article_id a = i) docs)"

text \<open>
  \<^verbatim>\<open>Article.findByIdAndDelete(id)\<close> for an identifier that is an ObjectId: removes the
  document and settles with it, or settles with \<^verbatim>\<open>null\<close> and removes nothing.
\<close>

definition Article_findByIdAndDelete ::
  "collection \<Rightarrow> oid \<Rightarrow> (db_error + article option) \<times> collection" where
  "Article_findByIdAndDelete docs i =
     (case find (\<lambda>a. article_id a = i) docs of
        None \<Rightarrow> (Inr None, docs)
      | Some a \<Rightarrow> (Inr (Some a), remove1 a docs))"

text \<open>
  The two operations as the handlers call them, with the string of
  \<^verbatim>\<open>req.params.id\<close>: mongoose casts the string to an ObjectId first (\<open>cast\<close>,
  which answers with the identifier or with the \<^verbatim>\<open>CastError\<close>), and rejects with
  the \<^verbatim>\<open>CastError\<close> when the string does not cast.
\<close>

definition Article_findById_string ::
  "(string \<Rightarrow> db_error + oid) \<Rightarrow> collection \<Rightarrow> string \<Rightarrow> db_error + article option" where
  "Article_findById_string cast docs rid =
     (case cast rid of Inl err \<Rightarrow> Inl err | Inr i \<Rightarrow> Article_findById docs i)"

definition Article_findByIdAndDelete_string ::
  "(string \<Rightarrow> db_error + oid) \<Rightarrow> collection \<Rightarrow> string \<Rightarrow>
   (db_error + article option) \<times> collection" where
  "Article_findByIdAndDelete_string cast docs rid =
     (case cast rid of Inl err \<Rightarrow> (Inl err, docs) | Inr i \<Rightarrow> Article_findByIdAndDelete docs i)"

subsection \<open>controllers/articleController.js\<close>

text \<open>
  The bodies the article handlers send: \<^verbatim>\<open>{status, results, data: {articles}}\<close>,
  \<^verbatim>\<open>{status, data: {article}}\<close> with one document or with the documents of an
  array, and \<^verbatim>\<open>{status, data: null}\<close>.
\<close>

datatype article_body =
    ArticleList string nat "article list"
  | ArticleData string article
  | ArticlesData string "article list"
  | NullData string

text \<open>
  Modelled from the spec: \<^verbatim>\<open>utils/catchAsync.js\<close> is not among the sources. Every
  handler failure is raised up, never swallowed: what the wrapped handler rejects with
  goes to \<^verbatim>\<open>next\<close>. The wrapped handler's own result is \<open>Inl\<close> when an awaited
  operation rejected, and otherwise what the handler did.
\<close>

definition catchAsync :: "db_error + (error + 'r) \<Rightarrow> error + 'r" where
  "catchAsync r = (case r of Inl err \<Rightarrow> Inl (DbError err) | Inr result \<Rightarrow> result)"

text \<open>\<^verbatim>\<open>req.query\<close> of a list request.\<close>

record 'x query =
  q_category :: "'x qval option"
  q_language :: "'x qval option"

text \<open>
  \<^verbatim>\<open>if (v)\<close> for a query value that may be absent: the empty string is falsy, every
  array and object is truthy.
\<close>

definition truthy :: "'x qval option \<Rightarrow> bool" where
  "truthy v = (case v of None \<Rightarrow> False | Some (QStr s) \<Rightarrow> s \<noteq> [] | Some (QOther x) \<Rightarrow> True)"

definition filter_of :: "'x query \<Rightarrow> 'x article_filter" where
  "filter_of q =
     \<lparr>f_category = (if truthy (q_category q) then q_category q else None),
      f_language = (if truthy (q_language q) then q_language q else None)\<rparr>"

definition getAllArticles ::
  "('x article_filter \<Rightarrow> db_error + article list) \<Rightarrow> 'x query \<Rightarrow> error + article_body response" where
  "getAllArticles find_sorted q =
     catchAsync
       (case find_sorted (filter_of q) of
          Inl err \<Rightarrow> Inl err
        | Inr articles \<Rightarrow>
            Inr (Inr (send_json 200 (ArticleList ''success'' (length articles) articles))))"

definition getArticle ::
  "('i \<Rightarrow> db_error + article option) \<Rightarrow> 'i \<Rightarrow> error + article_body response" where
  "getArticle findById rid =
     catchAsync
       (case findById rid of
          Inl err \<Rightarrow> Inl err
        | Inr None \<Rightarrow> Inr (Inl (AppError ''No article found with that ID'' 404))
        | Inr (Some a) \<Rightarrow> Inr (Inr (send_json 200 (ArticleData ''success'' a))))"

definition createArticle ::
  "('s \<Rightarrow> 'b \<Rightarrow> (db_error + created) \<times> 's) \<Rightarrow> 's \<Rightarrow> 'b \<Rightarrow>
   (error + article_body response) \<times> 's" where
  "createArticle create s b =
     (case create s b of
        (Inl err, s') \<Rightarrow> (catchAsync (Inl err), s')
      | (Inr (Doc newArticle), s') \<Rightarrow>
          (catchAsync (Inr (Inr (send_json 201 (ArticleData ''success'' newArticle)))), s')
      | (Inr (Docs newArticles), s') \<Rightarrow>
          (catchAsync (Inr (Inr (send_json 201 (ArticlesData ''success'' newArticles)))), s'))"


definition deleteArticle ::
  "('s \<Rightarrow> 'i \<Rightarrow> (db_error + article option) \<times> 's) \<Rightarrow> 's \<Rightarrow> 'i \<Rightarrow>
   (error + article_body response) \<times> 's" where
  "deleteArticle findByIdAndDelete s rid =
     (case findByIdAndDelete s rid of
        (Inl err, s') \<Rightarrow> (catchAsync (Inl err), s')
      | (Inr None, s') \<Rightarrow>
          (catchAsync (Inr (Inl (AppError ''No article found with that ID'' 404))), s')
      | (Inr (Some a), s') \<Rightarrow>
          (catchAsync (Inr (Inr (send_json 204 (NullData ''success'')))), s'))"

subsection \<open>The contact routes\<close>

text \<open>\<^verbatim>\<open>req.body\<close> of a contact request.\<close>

record contact_payload =
  c_name :: "string option"
  c_email :: "string option"
  c_subject :: "string option"
  c_message :: "string option"

text \<open>
  The bodies the contact routes send: \<^verbatim>\<open>{message, data}\<close>, \<^verbatim>\<open>{message}\<close> and
  \<^verbatim>\<open>{error}\<close>. The stored document is of the type the Contact model gives it.
\<close>

datatype 'c contact_body =
    MessageData string 'c
  | Message string
  | ErrorText string

text \<open>
  \<^verbatim>\<open>src/unnamed/part_000\<close>: the route that answers a rejected
  \<^verbatim>\<open>Contact.create(req.body)\<close> with status 400 and the error's own message.
\<close>

definition contact_post_part_000 ::
  "(contact_payload \<Rightarrow> db_error + 'c) \<Rightarrow> contact_payload \<Rightarrow> 'c contact_body response" where
  "contact_post_part_000 create b =
     (case create b of
        Inr newContact \<Rightarrow> send_json 201 (MessageData ''Message received!'' newContact)
      | Inl err \<Rightarrow> send_json 400 (ErrorText (db_message err)))"


subsection \<open>The error middleware and the login handler\<close>

text \<open>
  Modelled from the spec: \<^verbatim>\<open>middleware/error.js\<close> is not among the sources. The
  failure kinds of the error taxonomy, and the status of each.
\<close>

datatype failure_kind = Unauthenticated | Forbidden | ValidationFailed | NotFound | Unexpected

fun kind_status :: "failure_kind \<Rightarrow> nat" where
  "kind_status Unauthenticated = 401"
| "kind_status Forbidden = 403"
| "kind_status ValidationFailed = 400"
| "kind_status NotFound = 404"
| "kind_status Unexpected = 500"

text \<open>
  Modelled from the spec: \<^verbatim>\<open>middleware/error.js\<close> is not among the sources. The
  error middleware maps each failure kind to its status, and an unrecognised failure to
  the status 500. An \<^verbatim>\<open>AppError\<close> is of the kind of its status code; a token whose
  signature or expiry check fails is \<open>Unauthenticated\<close>; a rejection by the store's
  schema is \<open>ValidationFailed\<close>; everything else is \<open>Unexpected\<close>.
\<close>

fun failure_kind_of :: "error \<Rightarrow> failure_kind" where
  "failure_kind_of (AppError m code) =
     (if code = 401 then Unauthenticated
      else if code = 403 then Forbidden
      else if code = 400 then ValidationFailed
      else if code = 404 then NotFound
      else Unexpected)"
| "failure_kind_of (JwtError e) = Unauthenticated"
| "failure_kind_of (DbError (ValidationError m es)) = ValidationFailed"
| "failure_kind_of (DbError (CastError m)) = Unexpected"
| "failure_kind_of (DbError (MongoError m)) = Unexpected"
| "failure_kind_of (TypeError m) = Unexpected"

definition error_status :: "error \<Rightarrow> nat" where
  "error_status e = kind_status (failure_kind_of e)"





text \<open>The credentials of a login request.\<close>

record credentials =
  login_email :: string
  login_password :: string

text \<open>
  Modelled from the spec: \<^verbatim>\<open>controllers/authController.js\<close> is not among the
  sources. The login handler takes credentials, verifies them against the stored
  credential hash, and on success issues a new token; on mismatch it fails with
  \<open>Unauthenticated\<close> regardless of which field was wrong. The spec fixes no wording for
  the failure, so its message is an argument, as are the hash comparison and the signing
  of a token.
\<close>

definition login ::
  "string \<Rightarrow> (string \<Rightarrow> string \<Rightarrow> bool) \<Rightarrow> (oid \<Rightarrow> string) \<Rightarrow> user list \<Rightarrow> credentials \<Rightarrow>
   error + string response" where
  "login failed compare sign users c =
     (case find (\<lambda>u. email u = login_email c) users of
        None \<Rightarrow> Inl (AppError failed 401)
      | Some u \<Rightarrow>
          if compare (login_password c) (password_hash u)
          then Inr (send_json 200 (sign (user_id u)))
          else Inl (AppError failed 401))"

subsection \<open>Stores and verifiers for concrete runs\<close>

text \<open>\<^verbatim>\<open>User.findById\<close> over a list of users, when the database answers.\<close>

definition User_findById :: "user list \<Rightarrow> oid \<Rightarrow> db_error + user option" where
  "User_findById users i = Inr (find (\<lambda>u. user_id u = i) users)"

text \<open>\<^verbatim>\<open>User.findById\<close> over a list of users, when the driver cannot reach the database.\<close>

definition User_findById_unreachable :: "user list \<Rightarrow> oid \<Rightarrow> db_error + user option" where
  "User_findById_unreachable users i = Inl (MongoError ''connect ECONNREFUSED 127.0.0.1:27017'')"

text \<open>
  A verifier that accepts exactly one token, which carries the identifier 1, and rejects
  every other string as malformed.
\<close>

definition verify_one :: "string \<Rightarrow> jwt_error + payload" where
  "verify_one t =
     (if t = ''good'' then Inr \<lparr>payload_id = 1\<rparr> else Inl (JsonWebTokenError ''jwt malformed''))"

definition admin :: user where
  "admin = \<lparr>user_id = 1, email = ''admin@agrihealth.org'', password_hash = ''h1'', role = ''admin''\<rparr>"


text \<open>
  The cast of a string to an ObjectId, as mongoose 5 does it: a string of 24 hexadecimal
  digits and a string of 12 characters (its 12 bytes) are ObjectIds, here read as a
  number; any other string is answered with the \<^verbatim>\<open>CastError\<close>.
\<close>

definition hex_digit :: "char \<Rightarrow> nat option" where
  "hex_digit c =
     (let n = (of_char c :: nat)
      in if 48 \<le> n \<and> n \<le> 57 then Some (n - 48)
         else if 97 \<le> n \<and> n \<le> 102 then Some (n - 87)
         else if 65 \<le> n \<and> n \<le> 70 then Some (n - 55)
         else None)"

fun hex_value :: "nat \<Rightarrow> string \<Rightarrow> nat option" where
  "hex_value acc [] = Some acc"
| "hex_value acc (c # cs) =
     (case hex_digit c of None \<Rightarrow> None | Some d \<Rightarrow> hex_value (16 * acc + d) cs)"

fun bytes_value :: "nat \<Rightarrow> string \<Rightarrow> nat" where
  "bytes_value acc [] = acc"
| "bytes_value acc (c # cs) = bytes_value (256 * acc + of_char c) cs"

definition cast_ObjectId :: "string \<Rightarrow> db_error + oid" where
  "cast_ObjectId rid =
     (case (if length rid = 12 then Some (bytes_value 0 rid)
            else if length rid = 24 then hex_value 0 rid
            else None) of
        Some i \<Rightarrow> Inr i
      | None \<Rightarrow>
          Inl (CastError (''Cast to ObjectId failed for value '' @ [CHR 0x22] @ rid @ [CHR 0x22]
                 @ '' at path '' @ [CHR 0x22] @ ''_id'' @ [CHR 0x22]
                 @ '' for model '' @ [CHR 0x22] @ ''Article'' @ [CHR 0x22])))"

definition article1 :: article where
  "article1 = \<lparr>article_id = 1, title = ''Safe spraying'', content = ''Wear gloves.'',
     category = ''Chemical Safety'', readTime = 4, language = ''English'', imageUrl = None,
     externalLink = None, createdAt = 1000, updatedAt = None\<rparr>"

definition article2 :: article where
  "article2 = \<lparr>article_id = 2, title = ''Eat well'', content = ''Beans and greens.'',
     category = ''Nutrition'', readTime = 3, language = ''Swahili'', imageUrl = None,
     externalLink = None, createdAt = 2000, updatedAt = None\<rparr>"

definition payload1 :: article_payload where
  "payload1 = \<lparr>p_title = Val ''Clean water'', p_content = Val ''Boil it.'',
     p_category = Val ''Hygiene'', p_readTime = Val 2, p_language = Val ''English'',
     p_imageUrl = Absent, p_externalLink = Absent, p_createdAt = None, p_updatedAt = None\<rparr>"


text \<open>
  For concrete runs of a create: a URL check that accepts every string, the text of a
  \<^verbatim>\<open>ValidationError\<close> without its details, and the identifiers 3, 4, ... for the
  documents of one call.
\<close>

definition any_url :: "string \<Rightarrow> bool" where
  "any_url u = True"

definition plain_text :: "verror set \<Rightarrow> string" where
  "plain_text es = ''Article validation failed''"

definition ids_from_3 :: "nat \<Rightarrow> oid" where
  "ids_from_3 k = 3 + k"




section \<open>Properties\<close>

subsection \<open>The role guard\<close>

text \<open>
  C2. For a request that carries a resolved User, the role guard ends in the
  \<^verbatim>\<open>AppError\<close> with status 403 if and only if the User's role is not one of the
  route's roles; when the role is one of them the request is passed on as it came. The
  guard is a function of the roles and the request alone: it reads no store and writes
  none.
\<close>

theorem restrictTo_forbidden_iff:
  assumes "user req = Some u"
  shows "((restrictTo roles req
             = Inl (AppError ''You do not have permission to perform this action'' 403))
            = (role u \<notin> set roles))
       \<and> ((\<exists>e. restrictTo roles req = Inl e) = (role u \<notin> set roles))
       \<and> ((restrictTo roles req = Inr req) = (role u \<in> set roles))"
  using assms by (simp add: restrictTo_def)

theorem restrictTo_forbidden_iff_witness:
  "restrictTo [''admin''] \<lparr>authorization = None, user = Some \<lparr>user_id = 1, email = ''e@x.org'',
       password_hash = ''h'', role = ''editor''\<rparr>\<rparr>
     = Inl (AppError ''You do not have permission to perform this action'' 403)
   \<and> restrictTo [''admin'', ''editor''] \<lparr>authorization = None, user = Some \<lparr>user_id = 1,
       email = ''e@x.org'', password_hash = ''h'', role = ''editor''\<rparr>\<rparr>
     = Inr \<lparr>authorization = None, user = Some \<lparr>user_id = 1, email = ''e@x.org'',
       password_hash = ''h'', role = ''editor''\<rparr>\<rparr>"
  using restrictTo_forbidden_iff [of "\<lparr>authorization = None, user = Some \<lparr>user_id = 1,
       email = ''e@x.org'', password_hash = ''h'', role = ''editor''\<rparr>\<rparr>"
       "\<lparr>user_id = 1, email = ''e@x.org'', password_hash = ''h'', role = ''editor''\<rparr>"
       "[''admin'']"]
    restrictTo_forbidden_iff [of "\<lparr>authorization = None, user = Some \<lparr>user_id = 1,
       email = ''e@x.org'', password_hash = ''h'', role = ''editor''\<rparr>\<rparr>"
       "\<lparr>user_id = 1, email = ''e@x.org'', password_hash = ''h'', role = ''editor''\<rparr>"
       "[''admin'', ''editor'']"]
  by simp

subsection \<open>The token of the authorization header\<close>

lemma split_on_not_Nil: "split_on c xs \<noteq> []"
  by (induction xs) (auto split: list.splits)

lemma split_on_Cons_sep: "split_on c (c # xs) = [] # split_on c xs"
  by simp

lemma split_on_Cons_other: "x \<noteq> c \<Longrightarrow> split_on c (x # xs) = (x # hd (split_on c xs)) # tl (split_on c xs)"
  using split_on_not_Nil [of c xs] by (cases "split_on c xs") auto

lemma hd_split_on: "hd (split_on c xs) = takeWhile (\<lambda>x. x \<noteq> c) xs"
  by (induction xs) (auto simp: split_on_Cons_other split_on_Cons_sep simp del: split_on.simps(2))

lemma tl_split_on:
  "tl (split_on c xs) = (if c \<in> set xs then split_on c (tl (dropWhile (\<lambda>x. x \<noteq> c) xs)) else [])"
  by (induction xs) (auto simp: split_on_Cons_other split_on_Cons_sep simp del: split_on.simps(2))

lemma index_1: "index xs (Suc 0) = (case tl xs of [] \<Rightarrow> None | y # ys \<Rightarrow> Some y)"
  by (cases xs; cases "tl xs") (auto simp: index_def)

lemma index_1_split_on:
  "index (split_on c h) (Suc 0) =
     (if c \<in> set h then Some (takeWhile (\<lambda>x. x \<noteq> c) (tl (dropWhile (\<lambda>x. x \<noteq> c) h))) else None)"
proof (cases "c \<in> set h")
  case True
  let ?r = "tl (dropWhile (\<lambda>x. x \<noteq> c) h)"
  have "tl (split_on c h) = split_on c ?r" using True by (simp add: tl_split_on)
  moreover obtain w ws where "split_on c ?r = w # ws"
    using split_on_not_Nil [of c ?r] by (cases "split_on c ?r") auto
  moreover have "hd (split_on c ?r) = takeWhile (\<lambda>x. x \<noteq> c) ?r" by (rule hd_split_on)
  ultimately show ?thesis using True by (simp add: index_1)
next
  case False
  then show ?thesis by (simp add: index_1 tl_split_on)
qed

text \<open>
  C10. When the authorization header starts with \<^verbatim>\<open>Bearer\<close> and has no second
  component (the header has no space, as in the header \<^verbatim>\<open>Bearer\<close> alone, or
  nothing stands between its first space and the next space or the end), the middleware
  takes the missing-token branch: it ends in the \<^verbatim>\<open>AppError\<close> with status 401,
  whatever the verifier and the user lookup would answer, so neither is consulted.
\<close>

theorem auth_bearer_without_token:
  assumes "prefix ''Bearer'' h"
    and "takeWhile (\<lambda>x. x \<noteq> CHR '' '') (tl (dropWhile (\<lambda>x. x \<noteq> CHR '' '') h)) = []"
  shows "auth verify findById (req\<lparr>authorization := Some h\<rparr>)
           = Inl (AppError ''You are not logged in! Please log in to get access.'' 401)"
  using assms by (auto simp: auth_def get_token_def index_1_split_on split: option.splits)

theorem auth_bearer_without_token_witness:
  "auth verify_one (User_findById [admin]) \<lparr>authorization = Some ''Bearer'', user = None\<rparr>
     = Inl (AppError ''You are not logged in! Please log in to get access.'' 401)
   \<and> auth verify_one (User_findById [admin]) \<lparr>authorization = Some ''Bearer '', user = None\<rparr>
     = Inl (AppError ''You are not logged in! Please log in to get access.'' 401)"
  using auth_bearer_without_token [of "''Bearer''" verify_one "User_findById [admin]"
      "\<lparr>authorization = None, user = None\<rparr>"]
    auth_bearer_without_token [of "''Bearer ''" verify_one "User_findById [admin]"
      "\<lparr>authorization = None, user = None\<rparr>"]
  by simp

subsection \<open>The authentication middleware\<close>

lemma second_piece_no_space:
  "CHR '' '' \<notin> set h \<Longrightarrow>
   takeWhile (\<lambda>x. x \<noteq> CHR '' '') (tl (dropWhile (\<lambda>x. x \<noteq> CHR '' '') h)) = []"
proof -
  assume "CHR '' '' \<notin> set h"
  then have d: "dropWhile (\<lambda>x. x \<noteq> CHR '' '') h = []" by auto
  show ?thesis unfolding d by simp
qed

lemma get_token_Bearer:
  assumes "prefix ''Bearer'' h"
  shows "get_token (Some h) =
     (if CHR '' '' \<in> set h
      then Some (takeWhile (\<lambda>x. x \<noteq> CHR '' '') (tl (dropWhile (\<lambda>x. x \<noteq> CHR '' '') h)))
      else None)"
proof -
  from assms have "h \<noteq> []" by auto
  with assms show ?thesis by (simp add: get_token_def index_1_split_on)
qed

lemma get_token_not_Bearer: "\<not> prefix ''Bearer'' h \<Longrightarrow> get_token (Some h) = None"
  by (simp add: get_token_def)

lemma auth_no_token:
  assumes "authorization req = None
           \<or> (\<exists>h. authorization req = Some h
                \<and> (\<not> prefix ''Bearer'' h
                    \<or> takeWhile (\<lambda>x. x \<noteq> CHR '' '') (tl (dropWhile (\<lambda>x. x \<noteq> CHR '' '') h)) = []))"
  shows "auth verify findById req
           = Inl (AppError ''You are not logged in! Please log in to get access.'' 401)"
proof -
  have "get_token (authorization req) = None \<or> get_token (authorization req) = Some []"
  proof (cases "authorization req")
    case None
    then show ?thesis by (simp add: get_token_def)
  next
    case (Some h)
    show ?thesis
    proof (cases "prefix ''Bearer'' h")
      case True
      with assms Some
      have "takeWhile (\<lambda>x. x \<noteq> CHR '' '') (tl (dropWhile (\<lambda>x. x \<noteq> CHR '' '') h)) = []"
        by simp
      with True Some show ?thesis by (simp add: get_token_Bearer)
    next
      case False
      with Some show ?thesis by (simp add: get_token_not_Bearer)
    qed
  qed
  then show ?thesis by (auto simp: auth_def)
qed

lemma auth_token:
  assumes "authorization req = Some h" and "prefix ''Bearer'' h"
    and "takeWhile (\<lambda>x. x \<noteq> CHR '' '') (tl (dropWhile (\<lambda>x. x \<noteq> CHR '' '') h)) = t" and "t \<noteq> []"
  shows "auth verify findById req =
     (case verify t of
        Inl jerr \<Rightarrow> Inl (JwtError jerr)
      | Inr d \<Rightarrow>
          (case findById (payload_id d) of
             Inl err \<Rightarrow> Inl (DbError err)
           | Inr None \<Rightarrow> Inl (AppError ''The user belonging to this token no longer exists.'' 401)
           | Inr (Some u) \<Rightarrow> Inr (req\<lparr>user := Some u\<rparr>)))"
proof -
  have "CHR '' '' \<in> set h" using assms(3,4) second_piece_no_space [of h] by auto
  then have "get_token (authorization req) = Some t"
    using assms by (simp add: get_token_Bearer)
  with assms(4) show ?thesis by (simp add: auth_def)
qed

lemma DbError_not_401: "error_status (DbError err) \<noteq> 401"
  by (cases err) (simp_all add: error_status_def)

text \<open>
  C1. The outcomes of the authentication middleware, case by case; the token is what
  stands between the first space of the header and the next. Without a header, with a
  header that does not start with \<^verbatim>\<open>Bearer\<close>, or with an empty or missing token,
  it ends in the \<^verbatim>\<open>AppError\<close> \<^verbatim>\<open>You are not logged in!\<close> with status 401. With
  a token: when \<^verbatim>\<open>jwt.verify\<close> throws, the error it threw is handed to
  \<^verbatim>\<open>next\<close>; when the lookup settles with \<^verbatim>\<open>null\<close>, the middleware ends in the
  \<^verbatim>\<open>AppError\<close> with status 401 for a user that no longer exists; when the lookup
  itself rejects, the rejection is handed to \<^verbatim>\<open>next\<close>, and no user is attached;
  when the lookup finds the user, the user is attached and the request is passed on.
  With the statuses of the error taxonomy (401 for a token that does not verify, never
  401 for a rejection of the store), the middleware fails with status 401 exactly when
  there is no bearer credential, the verification fails, or the lookup finds no user.
\<close>

theorem auth_outcomes:
  "(let tok = (\<lambda>h. takeWhile (\<lambda>x. x \<noteq> CHR '' '') (tl (dropWhile (\<lambda>x. x \<noteq> CHR '' '') h))) in
     (authorization req = None \<longrightarrow>
        auth verify findById req
          = Inl (AppError ''You are not logged in! Please log in to get access.'' 401))
   \<and> (authorization req = Some h \<and> (\<not> prefix ''Bearer'' h \<or> tok h = []) \<longrightarrow>
        auth verify findById req
          = Inl (AppError ''You are not logged in! Please log in to get access.'' 401))
   \<and> (authorization req = Some h \<and> prefix ''Bearer'' h \<and> tok h \<noteq> []
        \<and> verify (tok h) = Inl jerr \<longrightarrow>
        auth verify findById req = Inl (JwtError jerr))
   \<and> (authorization req = Some h \<and> prefix ''Bearer'' h \<and> tok h \<noteq> []
        \<and> verify (tok h) = Inr d \<and> findById (payload_id d) = Inr None \<longrightarrow>
        auth verify findById req
          = Inl (AppError ''The user belonging to this token no longer exists.'' 401))
   \<and> (authorization req = Some h \<and> prefix ''Bearer'' h \<and> tok h \<noteq> []
        \<and> verify (tok h) = Inr d \<and> findById (payload_id d) = Inl err \<longrightarrow>
        auth verify findById req = Inl (DbError err))
   \<and> (authorization req = Some h \<and> prefix ''Bearer'' h \<and> tok h \<noteq> []
        \<and> verify (tok h) = Inr d \<and> findById (payload_id d) = Inr (Some u) \<longrightarrow>
        auth verify findById req = Inr (req\<lparr>user := Some u\<rparr>))
   \<and> ((\<exists>e. auth verify findById req = Inl e \<and> error_status e = 401)
        = (authorization req = None
           \<or> (\<exists>h'. authorization req = Some h'
                \<and> (\<not> prefix ''Bearer'' h' \<or> tok h' = []
                    \<or> (\<exists>jerr'. verify (tok h') = Inl jerr')
                    \<or> (\<exists>d'. verify (tok h') = Inr d' \<and> findById (payload_id d') = Inr None)))))
   \<and> ((\<exists>err'. auth verify findById req = Inl (DbError err'))
        = (\<exists>h' d' err'. authorization req = Some h' \<and> prefix ''Bearer'' h' \<and> tok h' \<noteq> []
             \<and> verify (tok h') = Inr d' \<and> findById (payload_id d') = Inl err'))
   \<and> ((\<exists>r. auth verify findById req = Inr r)
        = (\<exists>h' d' u'. authorization req = Some h' \<and> prefix ''Bearer'' h' \<and> tok h' \<noteq> []
             \<and> verify (tok h') = Inr d' \<and> findById (payload_id d') = Inr (Some u'))))"
proof -
  let ?tok = "\<lambda>h. takeWhile (\<lambda>x. x \<noteq> CHR '' '') (tl (dropWhile (\<lambda>x. x \<noteq> CHR '' '') h))"
  let ?A = "Inl (AppError ''You are not logged in! Please log in to get access.'' 401)
              :: error + 'a request_scheme"
  have none: "authorization req = None \<longrightarrow> auth verify findById req = ?A"
    by (simp add: auth_no_token)
  have bad: "authorization req = Some h \<and> (\<not> prefix ''Bearer'' h \<or> ?tok h = []) \<longrightarrow>
      auth verify findById req = ?A"
    using auth_no_token [of req verify findById] by blast
  have tok: "\<And>h'. authorization req = Some h' \<Longrightarrow> prefix ''Bearer'' h' \<Longrightarrow> ?tok h' \<noteq> [] \<Longrightarrow>
      auth verify findById req =
       (case verify (?tok h') of
          Inl jerr \<Rightarrow> Inl (JwtError jerr)
        | Inr d \<Rightarrow>
            (case findById (payload_id d) of
               Inl err \<Rightarrow> Inl (DbError err)
             | Inr None \<Rightarrow> Inl (AppError ''The user belonging to this token no longer exists.'' 401)
             | Inr (Some u) \<Rightarrow> Inr (req\<lparr>user := Some u\<rparr>)))"
    by (rule auth_token) simp_all
  have status: "(\<exists>e. auth verify findById req = Inl e \<and> error_status e = 401)
        = (authorization req = None
           \<or> (\<exists>h'. authorization req = Some h'
                \<and> (\<not> prefix ''Bearer'' h' \<or> ?tok h' = []
                    \<or> (\<exists>jerr'. verify (?tok h') = Inl jerr')
                    \<or> (\<exists>d'. verify (?tok h') = Inr d' \<and> findById (payload_id d') = Inr None))))"
  proof (cases "authorization req")
    case None
    then show ?thesis using none by (simp add: error_status_def)
  next
    case (Some h')
    show ?thesis
    proof (cases "\<not> prefix ''Bearer'' h' \<or> ?tok h' = []")
      case True
      then have "auth verify findById req = ?A"
        using auth_no_token [of req verify findById] Some by blast
      with True Some show ?thesis by (auto simp: error_status_def)
    next
      case False
      then have eq: "auth verify findById req =
       (case verify (?tok h') of
          Inl jerr \<Rightarrow> Inl (JwtError jerr)
        | Inr d \<Rightarrow>
            (case findById (payload_id d) of
               Inl err \<Rightarrow> Inl (DbError err)
             | Inr None \<Rightarrow> Inl (AppError ''The user belonging to this token no longer exists.'' 401)
             | Inr (Some u) \<Rightarrow> Inr (req\<lparr>user := Some u\<rparr>)))"
        using tok [OF Some] by blast
      from False Some show ?thesis
        unfolding eq
        using DbError_not_401
        by (auto simp: error_status_def split: sum.splits option.splits)
    qed
  qed
  have rejected: "(\<exists>err'. auth verify findById req = Inl (DbError err'))
        = (\<exists>h' d' err'. authorization req = Some h' \<and> prefix ''Bearer'' h' \<and> ?tok h' \<noteq> []
             \<and> verify (?tok h') = Inr d' \<and> findById (payload_id d') = Inl err')"
  proof (cases "authorization req")
    case None
    then show ?thesis using none by simp
  next
    case (Some h')
    show ?thesis
    proof (cases "\<not> prefix ''Bearer'' h' \<or> ?tok h' = []")
      case True
      then have "auth verify findById req = ?A"
        using auth_no_token [of req verify findById] Some by blast
      with True Some show ?thesis by auto
    next
      case False
      then have eq: "auth verify findById req =
       (case verify (?tok h') of
          Inl jerr \<Rightarrow> Inl (JwtError jerr)
        | Inr d \<Rightarrow>
            (case findById (payload_id d) of
               Inl err \<Rightarrow> Inl (DbError err)
             | Inr None \<Rightarrow> Inl (AppError ''The user belonging to this token no longer exists.'' 401)
             | Inr (Some u) \<Rightarrow> Inr (req\<lparr>user := Some u\<rparr>)))"
        using tok [OF Some] by blast
      from False Some show ?thesis
        unfolding eq by (auto split: sum.splits option.splits)
    qed
  qed
  have passed: "(\<exists>r. auth verify findById req = Inr r)
        = (\<exists>h' d' u'. authorization req = Some h' \<and> prefix ''Bearer'' h' \<and> ?tok h' \<noteq> []
             \<and> verify (?tok h') = Inr d' \<and> findById (payload_id d') = Inr (Some u'))"
  proof (cases "authorization req")
    case None
    then show ?thesis using none by simp
  next
    case (Some h')
    show ?thesis
    proof (cases "\<not> prefix ''Bearer'' h' \<or> ?tok h' = []")
      case True
      then have "auth verify findById req = ?A"
        using auth_no_token [of req verify findById] Some by blast
      with True Some show ?thesis by auto
    next
      case False
      then have eq: "auth verify findById req =
       (case verify (?tok h') of
          Inl jerr \<Rightarrow> Inl (JwtError jerr)
        | Inr d \<Rightarrow>
            (case findById (payload_id d) of
               Inl err \<Rightarrow> Inl (DbError err)
             | Inr None \<Rightarrow> Inl (AppError ''The user belonging to this token no longer exists.'' 401)
             | Inr (Some u) \<Rightarrow> Inr (req\<lparr>user := Some u\<rparr>)))"
        using tok [OF Some] by blast
      from False Some show ?thesis
        unfolding eq by (auto split: sum.splits option.splits)
    qed
  qed
  have cases: "(authorization req = None \<longrightarrow> auth verify findById req = ?A)
   \<and> (authorization req = Some h \<and> (\<not> prefix ''Bearer'' h \<or> ?tok h = []) \<longrightarrow>
        auth verify findById req = ?A)
   \<and> (authorization req = Some h \<and> prefix ''Bearer'' h \<and> ?tok h \<noteq> []
        \<and> verify (?tok h) = Inl jerr \<longrightarrow>
        auth verify findById req = Inl (JwtError jerr))
   \<and> (authorization req = Some h \<and> prefix ''Bearer'' h \<and> ?tok h \<noteq> []
        \<and> verify (?tok h) = Inr d \<and> findById (payload_id d) = Inr None \<longrightarrow>
        auth verify findById req
          = Inl (AppError ''The user belonging to this token no longer exists.'' 401))
   \<and> (authorization req = Some h \<and> prefix ''Bearer'' h \<and> ?tok h \<noteq> []
        \<and> verify (?tok h) = Inr d \<and> findById (payload_id d) = Inl err \<longrightarrow>
        auth verify findById req = Inl (DbError err))
   \<and> (authorization req = Some h \<and> prefix ''Bearer'' h \<and> ?tok h \<noteq> []
        \<and> verify (?tok h) = Inr d \<and> findById (payload_id d) = Inr (Some u) \<longrightarrow>
        auth verify findById req = Inr (req\<lparr>user := Some u\<rparr>))"
    using none bad by (auto simp: tok)
  show ?thesis
    unfolding Let_def
    using cases status rejected passed
    by (intro conjI) blast+
qed

theorem auth_outcomes_witness:
  "authorization \<lparr>authorization = Some ''Bearer good'', user = None\<rparr> = Some ''Bearer good''
   \<and> prefix ''Bearer'' ''Bearer good''
   \<and> takeWhile (\<lambda>x. x \<noteq> CHR '' '') (tl (dropWhile (\<lambda>x. x \<noteq> CHR '' '') ''Bearer good'')) = ''good''
   \<and> verify_one ''good'' = Inr \<lparr>payload_id = 1\<rparr>
   \<and> User_findById [admin] 1 = Inr (Some admin)
   \<and> auth verify_one (User_findById [admin]) \<lparr>authorization = Some ''Bearer good'', user = None\<rparr>
     = Inr \<lparr>authorization = Some ''Bearer good'', user = Some admin\<rparr>
   \<and> User_findById_unreachable [admin] 1
     = Inl (MongoError ''connect ECONNREFUSED 127.0.0.1:27017'')
   \<and> auth verify_one (User_findById_unreachable [admin])
       \<lparr>authorization = Some ''Bearer good'', user = None\<rparr>
     = Inl (DbError (MongoError ''connect ECONNREFUSED 127.0.0.1:27017''))
   \<and> User_findById [] 1 = Inr None
   \<and> auth verify_one (User_findById []) \<lparr>authorization = Some ''Bearer good'', user = None\<rparr>
     = Inl (AppError ''The user belonging to this token no longer exists.'' 401)"
  using auth_outcomes [of "\<lparr>authorization = Some ''Bearer good'', user = None\<rparr>" verify_one
      "User_findById [admin]" "''Bearer good''" "JsonWebTokenError ''jwt malformed''"
      "\<lparr>payload_id = 1\<rparr>" "MongoError ''connect ECONNREFUSED 127.0.0.1:27017''" admin]
    auth_outcomes [of "\<lparr>authorization = Some ''Bearer good'', user = None\<rparr>" verify_one
      "User_findById_unreachable [admin]" "''Bearer good''" "JsonWebTokenError ''jwt malformed''"
      "\<lparr>payload_id = 1\<rparr>" "MongoError ''connect ECONNREFUSED 127.0.0.1:27017''" admin]
    auth_outcomes [of "\<lparr>authorization = Some ''Bearer good'', user = None\<rparr>" verify_one
      "User_findById []" "''Bearer good''" "JsonWebTokenError ''jwt malformed''"
      "\<lparr>payload_id = 1\<rparr>" "MongoError ''connect ECONNREFUSED 127.0.0.1:27017''" admin]
  by (simp add: Let_def verify_one_def admin_def User_findById_def User_findById_unreachable_def)

text \<open>
  With the database unreachable, a request with a valid token of an existing user is
  neither answered with 401 nor passed on: the error of the driver goes to
  \<^verbatim>\<open>next\<close>.
\<close>

theorem auth_lookup_rejected_counterexample:
  "authorization \<lparr>authorization = Some ''Bearer good'', user = None\<rparr> = Some ''Bearer good''
   \<and> get_token (Some ''Bearer good'') = Some ''good''
   \<and> verify_one ''good'' = Inr \<lparr>payload_id = 1\<rparr>
   \<and> user_id admin = 1
   \<and> User_findById_unreachable [admin] 1
     = Inl (MongoError ''connect ECONNREFUSED 127.0.0.1:27017'')
   \<and> auth verify_one (User_findById_unreachable [admin])
       \<lparr>authorization = Some ''Bearer good'', user = None\<rparr>
     = Inl (DbError (MongoError ''connect ECONNREFUSED 127.0.0.1:27017''))"
  by (simp add: auth_def get_token_def index_def verify_one_def admin_def
      User_findById_unreachable_def)

subsection \<open>Listing articles\<close>


lemma getAllArticles_settled:
  "find_sorted (filter_of q) = Inr xs \<Longrightarrow>
   getAllArticles find_sorted q
     = Inr \<lparr>statusCode = 200, body = Some (ArticleList ''success'' (length xs) xs)\<rparr>"
  by (simp add: getAllArticles_def catchAsync_def send_json_def)

lemma getAllArticles_rejected:
  "find_sorted (filter_of q) = Inl err \<Longrightarrow> getAllArticles find_sorted q = Inl (DbError err)"
  by (simp add: getAllArticles_def catchAsync_def)



subsection \<open>Query parameters and the filter\<close>

lemma filter_of_explicit:
  "filter_of q =
     \<lparr>f_category = (if q_category q = Some (QStr []) then None else q_category q),
      f_language = (if q_language q = Some (QStr []) then None else q_language q)\<rparr>"
  by (auto simp: filter_of_def truthy_def split: option.splits qval.splits)

lemma matches_filter_of:
  "matches (filter_of r) a =
     ((case q_category r of
         None \<Rightarrow> True
       | Some (QStr c) \<Rightarrow> c = [] \<or> category a = c
       | Some (QOther cs) \<Rightarrow> category a \<in> set cs)
      \<and> (case q_language r of
            None \<Rightarrow> True
          | Some (QStr l) \<Rightarrow> l = [] \<or> language a = l
          | Some (QOther ls) \<Rightarrow> language a \<in> set ls))"
  by (auto simp: matches_def condition_holds_def filter_of_def truthy_def
      split: option.splits qval.splits)

text \<open>
  C9. The handler queries the store with the filter that has a key for exactly the
  parameters that are present and are not the empty string: a non-empty string, or a
  value that is no string (every array and object is truthy). So an empty parameter
  gives the answer of an absent one, for any store. Over a collection, the answer lists
  the articles that meet the condition of each such parameter (equality with a string,
  membership for an array of strings), and all articles when both parameters are empty
  or absent.
\<close>

theorem getAllArticles_filter:
  "getAllArticles find_sorted q =
     (case find_sorted
             \<lparr>f_category = (if q_category q = Some (QStr []) then None else q_category q),
              f_language = (if q_language q = Some (QStr []) then None else q_language q)\<rparr> of
        Inl err \<Rightarrow> Inl (DbError err)
      | Inr xs \<Rightarrow> Inr \<lparr>statusCode = 200, body = Some (ArticleList ''success'' (length xs) xs)\<rparr>)
   \<and> getAllArticles find_sorted (q\<lparr>q_category := Some (QStr [])\<rparr>)
     = getAllArticles find_sorted (q\<lparr>q_category := None\<rparr>)
   \<and> getAllArticles find_sorted (q\<lparr>q_language := Some (QStr [])\<rparr>)
     = getAllArticles find_sorted (q\<lparr>q_language := None\<rparr>)
   \<and> (\<exists>xs. getAllArticles (Article_find_sorted docs) r
             = Inr \<lparr>statusCode = 200, body = Some (ArticleList ''success'' (length xs) xs)\<rparr>
           \<and> mset xs
             = mset (filter
                 (\<lambda>a. (case q_category r of
                         None \<Rightarrow> True
                       | Some (QStr c) \<Rightarrow> c = [] \<or> category a = c
                       | Some (QOther cs) \<Rightarrow> category a \<in> set cs)
                      \<and> (case q_language r of
                            None \<Rightarrow> True
                          | Some (QStr l) \<Rightarrow> l = [] \<or> language a = l
                          | Some (QOther ls) \<Rightarrow> language a \<in> set ls))
                 docs))
   \<and> ((q_category r = None \<or> q_category r = Some (QStr []))
        \<and> (q_language r = None \<or> q_language r = Some (QStr []))
      \<longrightarrow> (\<exists>xs. getAllArticles (Article_find_sorted docs) r
                  = Inr \<lparr>statusCode = 200, body = Some (ArticleList ''success'' (length docs) xs)\<rparr>
                \<and> mset xs = mset docs))"
proof (intro conjI impI)
  show "getAllArticles find_sorted q =
     (case find_sorted
             \<lparr>f_category = (if q_category q = Some (QStr []) then None else q_category q),
              f_language = (if q_language q = Some (QStr []) then None else q_language q)\<rparr> of
        Inl err \<Rightarrow> Inl (DbError err)
      | Inr xs \<Rightarrow> Inr \<lparr>statusCode = 200, body = Some (ArticleList ''success'' (length xs) xs)\<rparr>)"
    unfolding getAllArticles_def filter_of_explicit
    by (simp add: catchAsync_def send_json_def split: sum.splits)
  show "getAllArticles find_sorted (q\<lparr>q_category := Some (QStr [])\<rparr>)
     = getAllArticles find_sorted (q\<lparr>q_category := None\<rparr>)"
    by (simp add: getAllArticles_def filter_of_explicit)
  show "getAllArticles find_sorted (q\<lparr>q_language := Some (QStr [])\<rparr>)
     = getAllArticles find_sorted (q\<lparr>q_language := None\<rparr>)"
    by (simp add: getAllArticles_def filter_of_explicit)
  let ?P = "\<lambda>a. (case q_category r of
                         None \<Rightarrow> True
                       | Some (QStr c) \<Rightarrow> c = [] \<or> category a = c
                       | Some (QOther cs) \<Rightarrow> category a \<in> set cs)
                      \<and> (case q_language r of
                            None \<Rightarrow> True
                          | Some (QStr l) \<Rightarrow> l = [] \<or> language a = l
                          | Some (QOther ls) \<Rightarrow> language a \<in> set ls)"
  have P: "matches (filter_of r) = ?P" by (rule ext) (rule matches_filter_of)
  have found: "getAllArticles (Article_find_sorted docs) r
      = Inr \<lparr>statusCode = 200, body = Some (ArticleList ''success''
          (length (sort_key (\<lambda>a. - createdAt a) (filter ?P docs)))
          (sort_key (\<lambda>a. - createdAt a) (filter ?P docs)))\<rparr>"
    by (rule getAllArticles_settled) (simp add: Article_find_sorted_def P)
  then show "\<exists>xs. getAllArticles (Article_find_sorted docs) r
             = Inr \<lparr>statusCode = 200, body = Some (ArticleList ''success'' (length xs) xs)\<rparr>
           \<and> mset xs = mset (filter ?P docs)"
    by (intro exI [of _ "sort_key (\<lambda>a. - createdAt a) (filter ?P docs)"]) simp
  assume "(q_category r = None \<or> q_category r = Some (QStr []))
        \<and> (q_language r = None \<or> q_language r = Some (QStr []))"
  then have "filter ?P docs = docs" by auto
  with found show "\<exists>xs. getAllArticles (Article_find_sorted docs) r
                  = Inr \<lparr>statusCode = 200, body = Some (ArticleList ''success'' (length docs) xs)\<rparr>
                \<and> mset xs = mset docs"
    by (intro exI [of _ "sort_key (\<lambda>a. - createdAt a) docs"]) simp
qed

theorem getAllArticles_filter_witness:
  "(q_category \<lparr>q_category = Some (QStr []), q_language = None\<rparr> = None
      \<or> q_category \<lparr>q_category = Some (QStr []), q_language = None\<rparr> = Some (QStr []))
   \<and> getAllArticles (Article_find_sorted [article1, article2])
       \<lparr>q_category = Some (QStr []), q_language = None\<rparr>
     = Inr \<lparr>statusCode = 200, body = Some (ArticleList ''success'' 2 [article2, article1])\<rparr>
   \<and> getAllArticles (Article_find_sorted [article1, article2])
       \<lparr>q_category = Some (QStr ''Nutrition''), q_language = Some (QStr [])\<rparr>
     = Inr \<lparr>statusCode = 200, body = Some (ArticleList ''success'' 1 [article2])\<rparr>"
  using getAllArticles_filter [of "Article_find_sorted [article1, article2]"
      "\<lparr>q_category = Some (QStr []), q_language = None\<rparr>" "[article1, article2]"
      "\<lparr>q_category = Some (QStr []), q_language = None\<rparr>"]
    getAllArticles_filter [of "Article_find_sorted [article1, article2]"
      "\<lparr>q_category = Some (QStr ''Nutrition''), q_language = Some (QStr [])\<rparr>"
      "[article1, article2]" "\<lparr>q_category = Some (QStr []), q_language = None\<rparr>"]
  by (simp add: getAllArticles_def catchAsync_def send_json_def filter_of_def truthy_def
      Article_find_sorted_def matches_def condition_holds_def article1_def article2_def)

text \<open>
  A parameter that is no string is no non-empty string, and yet it is copied into the
  filter: with \<^verbatim>\<open>category\<close> the array of the one string \<^verbatim>\<open>Nutrition\<close>, the
  handler answers with one article of two.
\<close>

theorem getAllArticles_array_counterexample:
  "getAllArticles (Article_find_sorted [article1, article2])
       \<lparr>q_category = Some (QOther [''Nutrition'']), q_language = None\<rparr>
     = Inr \<lparr>statusCode = 200, body = Some (ArticleList ''success'' 1 [article2])\<rparr>
   \<and> getAllArticles (Article_find_sorted [article1, article2])
       \<lparr>q_category = None, q_language = None\<rparr>
     = Inr \<lparr>statusCode = 200, body = Some (ArticleList ''success'' 2 [article2, article1])\<rparr>
   \<and> f_category (filter_of \<lparr>q_category = Some (QOther [''Nutrition'']), q_language = None\<rparr>)
     = Some (QOther [''Nutrition''])"
  by (simp add: getAllArticles_def catchAsync_def send_json_def Article_find_sorted_def
      filter_of_def truthy_def matches_def condition_holds_def article1_def article2_def)

subsection \<open>Creating an article\<close>

lemma map_filter_id_nonempty:
  "(List.map_filter (\<lambda>x. x) xs \<noteq> []) = (\<exists>x \<in> set xs. x \<noteq> None)"
  by (induction xs) (auto split: option.splits)

lemma set_map_filter_id: "set (List.map_filter (\<lambda>x. x) xs) = {e. Some e \<in> set xs}"
  by (induction xs) (auto split: option.splits)

lemma validate_article_mem:
  "(e \<in> validate_article isURL p) =
     (Some e = check_title p \<or> Some e = check_content p \<or> Some e = check_category p
      \<or> Some e = check_readTime p \<or> Some e = check_language p
      \<or> Some e = check_url isURL ''imageUrl'' (p_imageUrl p)
      \<or> Some e = check_url isURL ''externalLink'' (p_externalLink p))"
  unfolding validate_article_def set_map_filter_id by auto

lemma check_title_missing:
  "p_title p = Absent \<or> p_title p = Null \<Longrightarrow> check_title p = Some (''title'', Required)"
  by (auto simp: check_title_def)

lemma check_content_missing:
  "p_content p = Absent \<or> p_content p = Null \<Longrightarrow> check_content p = Some (''content'', Required)"
  by (auto simp: check_content_def)

lemma check_category_missing:
  "p_category p = Absent \<or> p_category p = Null \<Longrightarrow>
   check_category p = Some (''category'', Required)"
  by (auto simp: check_category_def)

lemma check_readTime_missing:
  "p_readTime p = Absent \<or> p_readTime p = Null \<Longrightarrow>
   check_readTime p = Some (''readTime'', Required)"
  by (auto simp: check_readTime_def)

lemma check_language_missing:
  "p_language p = Absent \<or> p_language p = Null \<Longrightarrow>
   check_language p = Some (''language'', Required)"
  by (auto simp: check_language_def)

lemma check_category_enum:
  "p_category p = Val c \<Longrightarrow> c \<notin> set categories \<Longrightarrow>
   check_category p = Some (''category'', if c = [] then Required else Enum)"
  by (simp add: check_category_def)

lemma check_language_enum:
  "p_language p = Val l \<Longrightarrow> l \<notin> set languages \<Longrightarrow>
   check_language p = Some (''language'', if l = [] then Required else Enum)"
  by (simp add: check_language_def)

lemma check_category_uncastable:
  "p_category p = Uncastable \<Longrightarrow> check_category p = Some (''category'', CastFailed)"
  by (simp add: check_category_def)

lemma check_language_uncastable:
  "p_language p = Uncastable \<Longrightarrow> check_language p = Some (''language'', CastFailed)"
  by (simp add: check_language_def)

lemma validate_article_title: "check_title p = Some e \<Longrightarrow> e \<in> validate_article isURL p"
  by (simp add: validate_article_mem)

lemma validate_article_content: "check_content p = Some e \<Longrightarrow> e \<in> validate_article isURL p"
  by (simp add: validate_article_mem)

lemma validate_article_category: "check_category p = Some e \<Longrightarrow> e \<in> validate_article isURL p"
  by (simp add: validate_article_mem)

lemma validate_article_readTime: "check_readTime p = Some e \<Longrightarrow> e \<in> validate_article isURL p"
  by (simp add: validate_article_mem)

lemma validate_article_language: "check_language p = Some e \<Longrightarrow> e \<in> validate_article isURL p"
  by (simp add: validate_article_mem)

lemma validate_article_rejects:
  assumes "p_title p = Absent \<or> p_title p = Null
           \<or> p_content p = Absent \<or> p_content p = Null
           \<or> p_category p = Absent \<or> p_category p = Null
           \<or> p_readTime p = Absent \<or> p_readTime p = Null
           \<or> p_language p = Absent \<or> p_language p = Null
           \<or> (\<exists>c. p_category p = Val c \<and> c \<notin> set categories) \<or> p_category p = Uncastable
           \<or> (\<exists>l. p_language p = Val l \<and> l \<notin> set languages) \<or> p_language p = Uncastable"
  shows "validate_article isURL p \<noteq> {}"
proof -
  from assms consider
      (t) "p_title p = Absent \<or> p_title p = Null"
    | (c) "p_content p = Absent \<or> p_content p = Null"
    | (g) "p_category p = Absent \<or> p_category p = Null"
    | (r) "p_readTime p = Absent \<or> p_readTime p = Null"
    | (l) "p_language p = Absent \<or> p_language p = Null"
    | (ge) x where "p_category p = Val x" and "x \<notin> set categories"
    | (gu) "p_category p = Uncastable"
    | (le) y where "p_language p = Val y" and "y \<notin> set languages"
    | (lu) "p_language p = Uncastable"
    by blast
  then show ?thesis
  proof cases
    case t
    from validate_article_title [OF check_title_missing [OF t], of isURL] show ?thesis by blast
  next
    case c
    from validate_article_content [OF check_content_missing [OF c], of isURL] show ?thesis by blast
  next
    case g
    from validate_article_category [OF check_category_missing [OF g], of isURL] show ?thesis
      by blast
  next
    case r
    from validate_article_readTime [OF check_readTime_missing [OF r], of isURL] show ?thesis
      by blast
  next
    case l
    from validate_article_language [OF check_language_missing [OF l], of isURL] show ?thesis
      by blast
  next
    case ge
    from validate_article_category [OF check_category_enum [OF ge], of isURL] show ?thesis by blast
  next
    case gu
    from validate_article_category [OF check_category_uncastable [OF gu], of isURL] show ?thesis
      by blast
  next
    case le
    from validate_article_language [OF check_language_enum [OF le], of isURL] show ?thesis by blast
  next
    case lu
    from validate_article_language [OF check_language_uncastable [OF lu], of isURL] show ?thesis
      by blast
  qed
qed

lemma Article_save_invalid:
  assumes "validate_article isURL p \<noteq> {}"
  shows "Article_save isURL describe new_id now docs p
           = (Inl (ValidationError (describe (validate_article isURL p))
                     (validate_article isURL p)), docs)"
  using assms by (simp add: Article_save_def)

lemma Article_save_valid:
  assumes "validate_article isURL p = {}"
  shows "\<exists>doc. Article_save isURL describe new_id now docs p = (Inr doc, docs @ [doc])
           \<and> article_id doc = new_id"
  using assms by (simp add: Article_save_def Let_def)

lemma Article_create_rejected_unchanged:
  "fst (Article_create isURL describe new_id now docs (One p)) = Inl err \<Longrightarrow>
   snd (Article_create isURL describe new_id now docs (One p)) = docs"
  by (cases "validate_article isURL p = {}")
    (simp_all add: Article_create_def Article_save_def Let_def)

lemma createArticle_valid:
  assumes "validate_article isURL p = {}"
  shows "\<exists>doc. createArticle (Article_create isURL describe new_id now) docs (One p)
           = (Inr \<lparr>statusCode = 201, body = Some (ArticleData ''success'' doc)\<rparr>, docs @ [doc])"
  using Article_save_valid [OF assms, of describe "new_id 0" now docs]
  by (auto simp: createArticle_def Article_create_def catchAsync_def send_json_def)

text \<open>
  C3. For a create request whose body is one object that lacks a required field
  (\<^verbatim>\<open>title\<close>, \<^verbatim>\<open>content\<close>, \<^verbatim>\<open>category\<close>, \<^verbatim>\<open>readTime\<close> or \<^verbatim>\<open>language\<close>:
  absent or \<^verbatim>\<open>null\<close>), or whose category or language is outside the enumerated
  values, \<^verbatim>\<open>Article.create\<close> rejects with a \<^verbatim>\<open>ValidationError\<close>, which the
  handler hands to \<^verbatim>\<open>next\<close>, and the collection is as it was. The error names the
  path of each missing field as required and, for a non-empty value outside the
  enumerated ones, the path as failing its enumeration. The status of this failure in
  the error taxonomy is 400.
\<close>

theorem createArticle_invalid:
  assumes "p_title p = Absent \<or> p_title p = Null
           \<or> p_content p = Absent \<or> p_content p = Null
           \<or> p_category p = Absent \<or> p_category p = Null
           \<or> p_readTime p = Absent \<or> p_readTime p = Null
           \<or> p_language p = Absent \<or> p_language p = Null
           \<or> (\<exists>c. p_category p = Val c \<and> c \<notin> set categories) \<or> p_category p = Uncastable
           \<or> (\<exists>l. p_language p = Val l \<and> l \<notin> set languages) \<or> p_language p = Uncastable"
  shows "createArticle (Article_create isURL describe new_id now) docs (One p)
           = (Inl (DbError (ValidationError (describe (validate_article isURL p))
                              (validate_article isURL p))), docs)
         \<and> validate_article isURL p \<noteq> {}
         \<and> error_status (DbError (ValidationError (describe (validate_article isURL p))
                                     (validate_article isURL p))) = 400
         \<and> (p_title p = Absent \<or> p_title p = Null \<longrightarrow>
              (''title'', Required) \<in> validate_article isURL p)
         \<and> (p_content p = Absent \<or> p_content p = Null \<longrightarrow>
              (''content'', Required) \<in> validate_article isURL p)
         \<and> (p_category p = Absent \<or> p_category p = Null \<longrightarrow>
              (''category'', Required) \<in> validate_article isURL p)
         \<and> (p_readTime p = Absent \<or> p_readTime p = Null \<longrightarrow>
              (''readTime'', Required) \<in> validate_article isURL p)
         \<and> (p_language p = Absent \<or> p_language p = Null \<longrightarrow>
              (''language'', Required) \<in> validate_article isURL p)
         \<and> (\<forall>c. p_category p = Val c \<and> c \<noteq> [] \<and> c \<notin> set categories \<longrightarrow>
              (''category'', Enum) \<in> validate_article isURL p)
         \<and> (\<forall>l. p_language p = Val l \<and> l \<noteq> [] \<and> l \<notin> set languages \<longrightarrow>
              (''language'', Enum) \<in> validate_article isURL p)"
proof -
  have ne: "validate_article isURL p \<noteq> {}" using assms by (rule validate_article_rejects)
  have res: "createArticle (Article_create isURL describe new_id now) docs (One p)
          = (Inl (DbError (ValidationError (describe (validate_article isURL p))
                     (validate_article isURL p))), docs)"
    by (simp add: createArticle_def Article_create_def catchAsync_def Article_save_invalid [OF ne])
  have st: "error_status (DbError (ValidationError (describe (validate_article isURL p))
                                     (validate_article isURL p))) = 400"
    by (simp add: error_status_def)
  have t: "p_title p = Absent \<or> p_title p = Null \<longrightarrow>
              (''title'', Required) \<in> validate_article isURL p"
    using validate_article_title check_title_missing by blast
  have c: "p_content p = Absent \<or> p_content p = Null \<longrightarrow>
              (''content'', Required) \<in> validate_article isURL p"
    using validate_article_content check_content_missing by blast
  have g: "p_category p = Absent \<or> p_category p = Null \<longrightarrow>
              (''category'', Required) \<in> validate_article isURL p"
    using validate_article_category check_category_missing by blast
  have r: "p_readTime p = Absent \<or> p_readTime p = Null \<longrightarrow>
              (''readTime'', Required) \<in> validate_article isURL p"
    using validate_article_readTime check_readTime_missing by blast
  have l: "p_language p = Absent \<or> p_language p = Null \<longrightarrow>
              (''language'', Required) \<in> validate_article isURL p"
    using validate_article_language check_language_missing by blast
  have ge: "\<forall>x. p_category p = Val x \<and> x \<noteq> [] \<and> x \<notin> set categories \<longrightarrow>
              (''category'', Enum) \<in> validate_article isURL p"
  proof (intro allI impI)
    fix x assume "p_category p = Val x \<and> x \<noteq> [] \<and> x \<notin> set categories"
    then have "check_category p = Some (''category'', Enum)"
      using check_category_enum [of p x] by simp
    then show "(''category'', Enum) \<in> validate_article isURL p" by (rule validate_article_category)
  qed
  have le: "\<forall>y. p_language p = Val y \<and> y \<noteq> [] \<and> y \<notin> set languages \<longrightarrow>
              (''language'', Enum) \<in> validate_article isURL p"
  proof (intro allI impI)
    fix y assume "p_language p = Val y \<and> y \<noteq> [] \<and> y \<notin> set languages"
    then have "check_language p = Some (''language'', Enum)"
      using check_language_enum [of p y] by simp
    then show "(''language'', Enum) \<in> validate_article isURL p" by (rule validate_article_language)
  qed
  from res ne st t c g r l ge le show ?thesis by (intro conjI)
qed

theorem createArticle_invalid_witness:
  "p_category (payload1\<lparr>p_category := Val ''Farming''\<rparr>) = Val ''Farming''
   \<and> ''Farming'' \<notin> set categories
   \<and> createArticle (Article_create any_url plain_text ids_from_3 3000) [article1]
       (One (payload1\<lparr>p_category := Val ''Farming''\<rparr>))
     = (Inl (DbError (ValidationError ''Article validation failed'' {(''category'', Enum)})),
        [article1])
   \<and> p_title (payload1\<lparr>p_title := Null\<rparr>) = Null
   \<and> createArticle (Article_create any_url plain_text ids_from_3 3000) [article1]
       (One (payload1\<lparr>p_title := Null\<rparr>))
     = (Inl (DbError (ValidationError ''Article validation failed'' {(''title'', Required)})),
        [article1])"
  using createArticle_invalid [of "payload1\<lparr>p_category := Val ''Farming''\<rparr>" any_url plain_text
      ids_from_3 3000 "[article1]"]
    createArticle_invalid [of "payload1\<lparr>p_title := Null\<rparr>" any_url plain_text
      ids_from_3 3000 "[article1]"]
  by (simp add: payload1_def categories_def languages_def validate_article_def check_title_def
      check_content_def check_category_def check_readTime_def check_language_def check_url_def
      trim_def js_space_def plain_text_def any_url_def)

text \<open>
  For a body that is an array every element is saved by itself: with a valid first
  element and a second one without a title, the create rejects with the
  \<^verbatim>\<open>ValidationError\<close> of the second, and the first is in the collection.
\<close>

theorem createArticle_array_counterexample:
  "p_title (payload1\<lparr>p_title := Absent\<rparr>) = Absent
   \<and> createArticle (Article_create any_url plain_text ids_from_3 3000) [article1]
       (Many [payload1, payload1\<lparr>p_title := Absent\<rparr>])
     = (Inl (DbError (ValidationError ''Article validation failed'' {(''title'', Required)})),
        [article1,
         \<lparr>article_id = 3, title = ''Clean water'', content = ''Boil it.'', category = ''Hygiene'',
          readTime = 2, language = ''English'', imageUrl = None, externalLink = None,
          createdAt = 3000, updatedAt = None\<rparr>])"
  by (simp add: createArticle_def catchAsync_def Article_create_def Article_save_def Let_def
      payload1_def categories_def languages_def validate_article_def check_title_def
      check_content_def check_category_def check_readTime_def check_language_def check_url_def
      trim_def js_space_def plain_text_def any_url_def ids_from_3_def stored_def url_stored_def)

subsection \<open>Reading and deleting by identifier\<close>

lemma find_id_None: "(find (\<lambda>a. article_id a = i) docs = None) = (i \<notin> article_id ` set docs)"
  by (auto simp: find_None_iff)

lemma find_id_Some:
  "find (\<lambda>a. article_id a = i) docs = Some a \<Longrightarrow> a \<in> set docs \<and> article_id a = i"
  by (auto simp: find_Some_iff)

lemma unique_find:
  "unique_ids docs \<Longrightarrow> a \<in> set docs \<Longrightarrow> find (\<lambda>x. article_id x = article_id a) docs = Some a"
  unfolding unique_ids_def by (induction docs) auto

lemma unique_remove1:
  "unique_ids docs \<Longrightarrow> a \<in> set docs \<Longrightarrow>
   remove1 a docs = filter (\<lambda>x. article_id x \<noteq> article_id a) docs"
  unfolding unique_ids_def
proof (induction docs)
  case Nil
  then show ?case by simp
next
  case (Cons d docs)
  show ?case
  proof (cases "d = a")
    case True
    with Cons.prems have "article_id a \<notin> article_id ` set docs" by simp
    then have "\<forall>x \<in> set docs. article_id x \<noteq> article_id a" by (metis imageI)
    then have "filter (\<lambda>x. article_id x \<noteq> article_id a) docs = docs" by (simp add: filter_id_conv)
    with True show ?thesis by simp
  next
    case False
    with Cons.prems have "a \<in> set docs" and "distinct (map article_id docs)"
      and "article_id d \<noteq> article_id a" by auto
    with Cons.IH False show ?thesis by simp
  qed
qed

lemma getArticle_null:
  "findById i = Inr None \<Longrightarrow> getArticle findById i = Inl (AppError ''No article found with that ID'' 404)"
  by (simp add: getArticle_def catchAsync_def)

lemma getArticle_found:
  "findById i = Inr (Some a) \<Longrightarrow>
   getArticle findById i = Inr \<lparr>statusCode = 200, body = Some (ArticleData ''success'' a)\<rparr>"
  by (simp add: getArticle_def catchAsync_def send_json_def)

lemma deleteArticle_null:
  "findByIdAndDelete s i = (Inr None, s') \<Longrightarrow>
   deleteArticle findByIdAndDelete s i = (Inl (AppError ''No article found with that ID'' 404), s')"
  by (simp add: deleteArticle_def catchAsync_def)

lemma deleteArticle_found:
  "findByIdAndDelete s i = (Inr (Some a), s') \<Longrightarrow>
   deleteArticle findByIdAndDelete s i = (Inr \<lparr>statusCode = 204, body = None\<rparr>, s')"
  by (simp add: deleteArticle_def catchAsync_def send_json_def)

lemma deleteArticle_absent:
  assumes "i \<notin> article_id ` set docs"
  shows "deleteArticle Article_findByIdAndDelete docs i
           = (Inl (AppError ''No article found with that ID'' 404), docs)"
proof -
  from assms have "find (\<lambda>a. article_id a = i) docs = None" by (simp add: find_id_None)
  then have "Article_findByIdAndDelete docs i = (Inr None, docs)"
    by (simp add: Article_findByIdAndDelete_def)
  then show ?thesis by (rule deleteArticle_null)
qed

lemma deleteArticle_present:
  assumes "unique_ids docs" and "a \<in> set docs"
  shows "deleteArticle Article_findByIdAndDelete docs (article_id a)
           = (Inr \<lparr>statusCode = 204, body = None\<rparr>,
              filter (\<lambda>x. article_id x \<noteq> article_id a) docs)"
proof -
  have "find (\<lambda>x. article_id x = article_id a) docs = Some a" using assms by (rule unique_find)
  then have "Article_findByIdAndDelete docs (article_id a)
      = (Inr (Some a), filter (\<lambda>x. article_id x \<noteq> article_id a) docs)"
    by (simp add: Article_findByIdAndDelete_def unique_remove1 [OF assms])
  then show ?thesis by (rule deleteArticle_found)
qed

text \<open>
  The handlers keep the identifiers of a collection unique: a delete removes a document,
  and a create adds one under the identifier the driver generated, which no document has.
\<close>

lemma unique_ids_delete:
  "unique_ids docs \<Longrightarrow> unique_ids (snd (deleteArticle Article_findByIdAndDelete docs i))"
  by (auto simp: unique_ids_def deleteArticle_def Article_findByIdAndDelete_def distinct_map
      inj_on_def dest: notin_set_remove1 split: option.splits)

lemma unique_ids_create:
  "unique_ids docs \<Longrightarrow> new_id 0 \<notin> article_id ` set docs \<Longrightarrow>
   unique_ids (snd (createArticle (Article_create isURL describe new_id now) docs (One p)))"
  by (cases "validate_article isURL p = {}")
    (auto simp: unique_ids_def createArticle_def Article_create_def Article_save_def Let_def)

text \<open>What the two operations do with the string of a request.\<close>

lemma getArticle_rejected:
  "findById rid = Inl err \<Longrightarrow> getArticle findById rid = Inl (DbError err)"
  by (simp add: getArticle_def catchAsync_def)

lemma deleteArticle_rejected:
  "findByIdAndDelete s rid = (Inl err, s') \<Longrightarrow>
   deleteArticle findByIdAndDelete s rid = (Inl (DbError err), s')"
  by (simp add: deleteArticle_def catchAsync_def)

lemma deleteArticle_string:
  "cast rid = Inr i \<Longrightarrow>
   deleteArticle (Article_findByIdAndDelete_string cast) docs rid
     = deleteArticle Article_findByIdAndDelete docs i"
  by (simp add: deleteArticle_def Article_findByIdAndDelete_string_def)

lemma getArticle_string:
  "cast rid = Inr i \<Longrightarrow>
   getArticle (Article_findById_string cast docs) rid = getArticle (Article_findById docs) i"
  by (simp add: getArticle_def Article_findById_string_def)

text \<open>
  C4. When the store finds no document with the identifier, get-by-id ends in the
  \<^verbatim>\<open>AppError\<close> with status 404, and so does delete-by-id. Over a collection:
  for a string that casts to an ObjectId no article has, get-by-id and delete-by-id end
  in that error, and the delete leaves the collection as it was; after the delete of an
  identifier the collection has, answered with status 204, a second delete of the same
  identifier ends in the \<^verbatim>\<open>AppError\<close> with status 404. For a string that does
  not cast to an ObjectId, both handlers hand the \<^verbatim>\<open>CastError\<close> to
  \<^verbatim>\<open>next\<close> and the collection is as it was.
\<close>

theorem not_found_404:
  "(findById rid = Inr None \<longrightarrow>
      getArticle findById rid = Inl (AppError ''No article found with that ID'' 404))
   \<and> (findByIdAndDelete s rid = (Inr None, s') \<longrightarrow>
      deleteArticle findByIdAndDelete s rid
        = (Inl (AppError ''No article found with that ID'' 404), s'))
   \<and> (cast sid = Inr i \<and> i \<notin> article_id ` set docs \<longrightarrow>
      getArticle (Article_findById_string cast docs) sid
        = Inl (AppError ''No article found with that ID'' 404)
      \<and> deleteArticle (Article_findByIdAndDelete_string cast) docs sid
          = (Inl (AppError ''No article found with that ID'' 404), docs))
   \<and> (cast sid = Inl err \<longrightarrow>
      getArticle (Article_findById_string cast docs) sid = Inl (DbError err)
      \<and> deleteArticle (Article_findByIdAndDelete_string cast) docs sid
          = (Inl (DbError err), docs))
   \<and> (unique_ids docs \<and> cast sid = Inr i \<and> i \<in> article_id ` set docs \<longrightarrow>
      (\<exists>docs'. deleteArticle (Article_findByIdAndDelete_string cast) docs sid
                  = (Inr \<lparr>statusCode = 204, body = None\<rparr>, docs')
              \<and> deleteArticle (Article_findByIdAndDelete_string cast) docs' sid
                  = (Inl (AppError ''No article found with that ID'' 404), docs')
              \<and> getArticle (Article_findById_string cast docs') sid
                  = Inl (AppError ''No article found with that ID'' 404)))"
proof (intro conjI impI)
  assume "findById rid = Inr None"
  then show "getArticle findById rid = Inl (AppError ''No article found with that ID'' 404)"
    by (rule getArticle_null)
next
  assume "findByIdAndDelete s rid = (Inr None, s')"
  then show "deleteArticle findByIdAndDelete s rid
        = (Inl (AppError ''No article found with that ID'' 404), s')"
    by (rule deleteArticle_null)
next
  assume h: "cast sid = Inr i \<and> i \<notin> article_id ` set docs"
  then have "Article_findById docs i = Inr None"
    by (simp add: Article_findById_def find_id_None)
  then have "getArticle (Article_findById docs) i
      = Inl (AppError ''No article found with that ID'' 404)"
    by (rule getArticle_null)
  with h show "getArticle (Article_findById_string cast docs) sid
      = Inl (AppError ''No article found with that ID'' 404)"
    by (simp add: getArticle_string)
  from h show "deleteArticle (Article_findByIdAndDelete_string cast) docs sid
      = (Inl (AppError ''No article found with that ID'' 404), docs)"
    by (simp add: deleteArticle_string deleteArticle_absent)
next
  assume h: "cast sid = Inl err"
  then show "getArticle (Article_findById_string cast docs) sid = Inl (DbError err)"
    by (simp add: getArticle_rejected Article_findById_string_def)
  from h show "deleteArticle (Article_findByIdAndDelete_string cast) docs sid
      = (Inl (DbError err), docs)"
    by (simp add: deleteArticle_rejected Article_findByIdAndDelete_string_def)
next
  assume "unique_ids docs \<and> cast sid = Inr i \<and> i \<in> article_id ` set docs"
  then obtain a where u: "unique_ids docs" and a: "a \<in> set docs" and i: "i = article_id a"
    and c: "cast sid = Inr i"
    by auto
  let ?docs' = "filter (\<lambda>x. article_id x \<noteq> i) docs"
  have first: "deleteArticle (Article_findByIdAndDelete_string cast) docs sid
      = (Inr \<lparr>statusCode = 204, body = None\<rparr>, ?docs')"
    using deleteArticle_present [OF u a] c i by (simp add: deleteArticle_string)
  have absent: "i \<notin> article_id ` set ?docs'" by auto
  then have second: "deleteArticle (Article_findByIdAndDelete_string cast) ?docs' sid
      = (Inl (AppError ''No article found with that ID'' 404), ?docs')"
    using c by (simp add: deleteArticle_string deleteArticle_absent)
  from absent have "Article_findById ?docs' i = Inr None"
    by (simp add: Article_findById_def find_id_None)
  then have "getArticle (Article_findById ?docs') i
      = Inl (AppError ''No article found with that ID'' 404)"
    by (rule getArticle_null)
  then have third: "getArticle (Article_findById_string cast ?docs') sid
      = Inl (AppError ''No article found with that ID'' 404)"
    using c by (simp add: getArticle_string)
  from first second third
  show "\<exists>docs'. deleteArticle (Article_findByIdAndDelete_string cast) docs sid
                  = (Inr \<lparr>statusCode = 204, body = None\<rparr>, docs')
              \<and> deleteArticle (Article_findByIdAndDelete_string cast) docs' sid
                  = (Inl (AppError ''No article found with that ID'' 404), docs')
              \<and> getArticle (Article_findById_string cast docs') sid
                  = Inl (AppError ''No article found with that ID'' 404)"
    by blast
qed

lemma cast_ObjectId_2: "cast_ObjectId ''000000000000000000000002'' = Inr 2"
  by (simp add: cast_ObjectId_def hex_digit_def Let_def)

lemma cast_ObjectId_7: "cast_ObjectId ''000000000000000000000007'' = Inr 7"
  by (simp add: cast_ObjectId_def hex_digit_def Let_def)

lemma cast_ObjectId_abc:
  "cast_ObjectId ''abc''
     = Inl (CastError (''Cast to ObjectId failed for value '' @ [CHR 0x22] @ ''abc'' @ [CHR 0x22]
              @ '' at path '' @ [CHR 0x22] @ ''_id'' @ [CHR 0x22]
              @ '' for model '' @ [CHR 0x22] @ ''Article'' @ [CHR 0x22]))"
  by (simp add: cast_ObjectId_def)

theorem not_found_404_witness:
  "cast_ObjectId ''000000000000000000000007'' = Inr 7
   \<and> 7 \<notin> article_id ` set [article1, article2]
   \<and> getArticle (Article_findById_string cast_ObjectId [article1, article2])
       ''000000000000000000000007''
     = Inl (AppError ''No article found with that ID'' 404)
   \<and> unique_ids [article1, article2]
   \<and> cast_ObjectId ''000000000000000000000002'' = Inr 2
   \<and> 2 \<in> article_id ` set [article1, article2]
   \<and> deleteArticle (Article_findByIdAndDelete_string cast_ObjectId) [article1, article2]
       ''000000000000000000000002''
     = (Inr \<lparr>statusCode = 204, body = None\<rparr>, [article1])
   \<and> deleteArticle (Article_findByIdAndDelete_string cast_ObjectId) [article1]
       ''000000000000000000000002''
     = (Inl (AppError ''No article found with that ID'' 404), [article1])"
  using not_found_404 [of "Article_findById_string cast_ObjectId [article1, article2]"
      "''000000000000000000000007''" "Article_findByIdAndDelete_string cast_ObjectId"
      "[article1, article2]" "[article1, article2]" cast_ObjectId "''000000000000000000000007''" 7
      "[article1, article2]" "CastError ''''"]
    not_found_404 [of "Article_findById_string cast_ObjectId [article1, article2]"
      "''000000000000000000000002''" "Article_findByIdAndDelete_string cast_ObjectId"
      "[article1]" "[article1]" cast_ObjectId "''000000000000000000000002''" 2
      "[article1]" "CastError ''''"]
  by (simp add: cast_ObjectId_7 cast_ObjectId_2 unique_ids_def article1_def article2_def deleteArticle_def
      Article_findByIdAndDelete_string_def Article_findByIdAndDelete_def catchAsync_def
      send_json_def)

text \<open>
  The string \<^verbatim>\<open>abc\<close> is the identifier of no article, and it does not cast to an
  ObjectId: get-by-id and delete-by-id hand the \<^verbatim>\<open>CastError\<close> to \<^verbatim>\<open>next\<close>,
  not the \<^verbatim>\<open>AppError\<close> with status 404.
\<close>

theorem not_found_cast_counterexample:
  "cast_ObjectId ''abc''
     = Inl (CastError (''Cast to ObjectId failed for value '' @ [CHR 0x22] @ ''abc'' @ [CHR 0x22]
              @ '' at path '' @ [CHR 0x22] @ ''_id'' @ [CHR 0x22]
              @ '' for model '' @ [CHR 0x22] @ ''Article'' @ [CHR 0x22]))
   \<and> getArticle (Article_findById_string cast_ObjectId [article1, article2]) ''abc''
     = Inl (DbError (CastError (''Cast to ObjectId failed for value '' @ [CHR 0x22] @ ''abc''
              @ [CHR 0x22] @ '' at path '' @ [CHR 0x22] @ ''_id'' @ [CHR 0x22]
              @ '' for model '' @ [CHR 0x22] @ ''Article'' @ [CHR 0x22])))
   \<and> deleteArticle (Article_findByIdAndDelete_string cast_ObjectId) [article1, article2] ''abc''
     = (Inl (DbError (CastError (''Cast to ObjectId failed for value '' @ [CHR 0x22] @ ''abc''
              @ [CHR 0x22] @ '' at path '' @ [CHR 0x22] @ ''_id'' @ [CHR 0x22]
              @ '' for model '' @ [CHR 0x22] @ ''Article'' @ [CHR 0x22]))), [article1, article2])"
  by (simp add: cast_ObjectId_abc getArticle_def deleteArticle_def catchAsync_def
      Article_findById_string_def Article_findByIdAndDelete_string_def)

text \<open>
  C7. A delete-by-id request that names an article of the collection removes that
  article and no other, and is answered with status 204 and no body; the identifier is
  not found in the collection afterwards. Whatever the store, a delete that finds the
  document is answered with status 204 and no body.
\<close>

theorem deleteArticle_removes:
  assumes "unique_ids docs" and "a \<in> set docs" and "article_id a = i"
  shows "deleteArticle Article_findByIdAndDelete docs i
           = (Inr \<lparr>statusCode = 204, body = None\<rparr>, filter (\<lambda>x. article_id x \<noteq> i) docs)
         \<and> Article_findById (snd (deleteArticle Article_findByIdAndDelete docs i)) i = Inr None
         \<and> (findByIdAndDelete s i = (Inr (Some a'), s') \<longrightarrow>
              deleteArticle findByIdAndDelete s i = (Inr \<lparr>statusCode = 204, body = None\<rparr>, s'))"
proof -
  have any: "findByIdAndDelete s i = (Inr (Some a'), s') \<longrightarrow>
      deleteArticle findByIdAndDelete s i = (Inr \<lparr>statusCode = 204, body = None\<rparr>, s')"
    by (simp add: deleteArticle_found)
  have del: "deleteArticle Article_findByIdAndDelete docs i
      = (Inr \<lparr>statusCode = 204, body = None\<rparr>, filter (\<lambda>x. article_id x \<noteq> i) docs)"
    using deleteArticle_present [OF assms(1,2)] assms(3) by simp
  have "i \<notin> article_id ` set (filter (\<lambda>x. article_id x \<noteq> i) docs)" by auto
  then have "Article_findById (filter (\<lambda>x. article_id x \<noteq> i) docs) i = Inr None"
    by (simp add: Article_findById_def find_id_None)
  with del any show ?thesis by simp
qed

theorem deleteArticle_removes_witness:
  "deleteArticle Article_findByIdAndDelete [article1, article2] 1
     = (Inr \<lparr>statusCode = 204, body = None\<rparr>, [article2])"
  using deleteArticle_removes [of "[article1, article2]" article1 1 Article_findByIdAndDelete
      "[article1, article2]" article1 "[article2]"]
  by (simp add: unique_ids_def article1_def article2_def)

subsection \<open>Login\<close>

text \<open>
  C8. A login with a wrong password for an existing user and a login with an email no
  user has end in the same failure, of status 401: the two responses are identical.
\<close>

theorem login_failures_identical:
  assumes "find (\<lambda>u. email u = login_email c1) users = Some u"
    and "\<not> compare (login_password c1) (password_hash u)"
    and "find (\<lambda>u. email u = login_email c2) users = None"
  shows "login failed compare sign users c1 = login failed compare sign users c2
         \<and> login failed compare sign users c1 = Inl (AppError failed 401)
         \<and> error_status (AppError failed 401) = 401"
  using assms by (simp add: login_def error_status_def)

theorem login_failures_identical_witness:
  "login ''Incorrect email or password'' (\<lambda>p h. h = ''h'' @ p) (\<lambda>i. ''token'') [admin]
       \<lparr>login_email = ''admin@agrihealth.org'', login_password = ''2''\<rparr>
     = login ''Incorrect email or password'' (\<lambda>p h. h = ''h'' @ p) (\<lambda>i. ''token'') [admin]
       \<lparr>login_email = ''nobody@agrihealth.org'', login_password = ''1''\<rparr>"
  using login_failures_identical [of "\<lparr>login_email = ''admin@agrihealth.org'', login_password = ''2''\<rparr>"
      "[admin]" admin "\<lambda>p h. h = ''h'' @ p"
      "\<lparr>login_email = ''nobody@agrihealth.org'', login_password = ''1''\<rparr>"
      "''Incorrect email or password''" "\<lambda>i. ''token''"]
  by (simp add: admin_def)

subsection \<open>The contact routes\<close>

lemma contact_post_part_000_rejected:
  "create b = Inl err \<Longrightarrow>
   contact_post_part_000 create b = \<lparr>statusCode = 400, body = Some (ErrorText (db_message err))\<rparr>"
  by (simp add: contact_post_part_000_def send_json_def)


subsection \<open>Failures and the error middleware\<close>
















end
